theory Spec2Isabelle
  imports Complex_Main "HOL-Library.Word" "HOL-Library.Code_Target_Numeral"
begin

unbundle bit_operations_syntax

section \<open>Conventions of the embedding\<close>

text \<open>
  The firmware computes in \<^verbatim>\<open>float\<close>. A \<^verbatim>\<open>float\<close> value is modelled by the \<^typ>\<open>real\<close> it
  denotes. In the AHRS and in the flight observer the arithmetic is that of the reals: the
  theorems there are about which assignments a call executes and which branch a
  comparison selects; they say nothing about rounding. In the output formatter a
  product is rounded to the nearest \<^verbatim>\<open>float\<close> before it is cast to \<^verbatim>\<open>int\<close>, as the code
  does, because the digits written depend on it. Infinities and NaN are not modelled. A
  \<^verbatim>\<open>char\<close> buffer is modelled by the bytes written to it, a \<^typ>\<open>string\<close>; the
  terminating NUL is implicit and the capacity of a buffer is not modelled.
\<close>

section \<open>Output formatter (NMEA\_format.cpp)\<close>

subsection \<open>Arithmetic of the target\<close>

text \<open>
  Rounding a real number to \<^verbatim>\<open>float\<close> (IEEE 754 binary32, round to nearest, ties to even).
  \<open>float32_exponent x\<close> is the binary exponent of \<open>x\<close>, the greatest \<open>k\<close> between -126
  and 127 with \<open>2 ^ k \<le> \<bar>x\<bar>\<close>, and -126 for zero and the subnormal numbers; the search
  runs down from 127. The unit in the last place is 23 binary digits below the exponent.
  A value beyond the largest \<^verbatim>\<open>float\<close> is kept at the precision of the exponent 127
  instead of becoming infinite; the cast of such a value is out of range, as the cast of
  infinity is.
\<close>

function float32_exponent_search :: "real \<Rightarrow> int \<Rightarrow> int" where
  "float32_exponent_search x k =
     (if k \<le> - 126 then - 126
      else if 2 powi k \<le> \<bar>x\<bar> then k
      else float32_exponent_search x (k - 1))"
  by pat_completeness auto
termination
  by (relation "measure (\<lambda>(x, k). nat (k + 126))") auto

declare float32_exponent_search.simps [simp del]

definition float32_exponent :: "real \<Rightarrow> int" where
  "float32_exponent x = float32_exponent_search x 127"

definition round_nearest_even :: "real \<Rightarrow> int" where
  "round_nearest_even q =
     (let f = \<lfloor>q\<rfloor>; d = q - of_int f
      in if d < 1 / 2 then f
         else if 1 / 2 < d then f + 1
         else if even f then f else f + 1)"

definition float32_round :: "real \<Rightarrow> real" where
  "float32_round x =
     (let ulp = 2 powi (float32_exponent x - 23)
      in of_int (round_nearest_even (x / ulp)) * ulp)"

text \<open>The product \<^verbatim>\<open>a * b\<close> of two \<^verbatim>\<open>float\<close> values.\<close>

definition float32_mul :: "real \<Rightarrow> real \<Rightarrow> real" where
  "float32_mul a b = float32_round (a * b)"

text \<open>
  Two things the formatter can do are undefined in C and decided by the machine: the
  cast \<^verbatim>\<open>(int) x\<close> of a \<^verbatim>\<open>float\<close> whose truncated value is not an \<^verbatim>\<open>int32_t\<close>, and a read
  of \<^verbatim>\<open>HEX[i]\<close> outside the table. Both are parameters: \<open>out_of_range_cast\<close> is the
  value such a cast delivers, \<open>HEX_outside\<close> the byte such a read finds.
\<close>

record machine =
  out_of_range_cast :: "real \<Rightarrow> int"
  HEX_outside :: "int \<Rightarrow> char"

text \<open>
  Integers of 32 bits: \<open>int32_of\<close> wraps an integer into the range of \<^verbatim>\<open>int32_t\<close> (two's
  complement), \<open>uint32_of\<close> is the conversion to \<^verbatim>\<open>uint32_t\<close>, and \<open>c_div\<close> and \<open>c_mod\<close>
  are the operators \<^verbatim>\<open>/\<close> and \<^verbatim>\<open>%\<close> of C, which truncate towards zero.
\<close>

definition int32_of :: "int \<Rightarrow> int" where
  "int32_of i = (i + 2 ^ 31) mod 2 ^ 32 - 2 ^ 31"

definition uint32_of :: "int \<Rightarrow> nat" where
  "uint32_of i = nat (i mod 2 ^ 32)"

definition c_div :: "int \<Rightarrow> int \<Rightarrow> int" where
  "c_div a b = sgn a * sgn b * (\<bar>a\<bar> div \<bar>b\<bar>)"

definition c_mod :: "int \<Rightarrow> int \<Rightarrow> int" where
  "c_mod a b = a - b * c_div a b"

text \<open>The cast \<^verbatim>\<open>(int) x\<close> of a \<^verbatim>\<open>float\<close>: truncation towards zero where that is an \<^verbatim>\<open>int32_t\<close>.\<close>

definition truncate_towards_zero :: "real \<Rightarrow> int" where
  "truncate_towards_zero x = (if x < 0 then \<lceil>x\<rceil> else \<lfloor>x\<rfloor>)"

definition float_to_int :: "machine \<Rightarrow> real \<Rightarrow> int" where
  "float_to_int M x =
     (let t = truncate_towards_zero x
      in if - (2 ^ 31) \<le> t \<and> t \<le> 2 ^ 31 - 1 then t
         else int32_of (out_of_range_cast M x))"

subsection \<open>Integer to ASCII\<close>

definition HEX :: string where
  "HEX = ''0123456789ABCDEF''"

text \<open>The read \<^verbatim>\<open>HEX[i]\<close> with an index of type \<^verbatim>\<open>int32_t\<close>.\<close>

definition HEX_at :: "machine \<Rightarrow> int \<Rightarrow> char" where
  "HEX_at M i = (if 0 \<le> i \<and> i < 16 then HEX ! nat i else HEX_outside M i)"

text \<open>
  \<^verbatim>\<open>format_integer(uint32_t value, char *s)\<close>: the digits of \<open>val\<close>, most significant
  first. The second recursive call receives a value below ten.
\<close>

function format_integer :: "nat \<Rightarrow> string" where
  "format_integer val =
     (if val < 10 then [char_of (val + 48)]
      else format_integer (val div 10) @ format_integer (val mod 10))"
  by pat_completeness auto
termination
  by (relation "measure (\<lambda>val. val)") auto

declare format_integer.simps [simp del]

text \<open>
  \<^verbatim>\<open>integer_to_ascii_2_decimals(int32_t number, char *s)\<close> and
  \<^verbatim>\<open>integer_to_ascii_1_decimal\<close>: the bytes written from \<open>s\<close> on. The statement
  \<^verbatim>\<open>number = -number\<close> wraps for the least \<^verbatim>\<open>int32_t\<close>, which stays negative; the quotient
  passed to \<^verbatim>\<open>format_integer\<close> is converted to \<^verbatim>\<open>uint32_t\<close>. In the source the digit
  \<open>s_1\<close> is stored before \<open>number\<close> is divided by ten and \<open>s_0\<close> after.
\<close>

definition integer_to_ascii_2_decimals :: "machine \<Rightarrow> int \<Rightarrow> string" where
  "integer_to_ascii_2_decimals M number =
     (let sign = (if number < 0 then ''-'' else '''');
          number = (if number < 0 then int32_of (- number) else number);
          s = sign @ format_integer (uint32_of (c_div number 100)) @ ''.'';
          s_1 = HEX_at M (c_mod number 10);
          number = c_div number 10;
          s_0 = HEX_at M (c_mod number 10)
      in s @ [s_0, s_1])"

definition integer_to_ascii_1_decimal :: "machine \<Rightarrow> int \<Rightarrow> string" where
  "integer_to_ascii_1_decimal M number =
     (let sign = (if number < 0 then ''-'' else '''');
          number = (if number < 0 then int32_of (- number) else number);
          s = sign @ format_integer (uint32_of (c_div number 10)) @ ''.'';
          s_0 = HEX_at M (c_mod number 10)
      in s @ [s_0])"

subsection \<open>The sentences \$POV and \$HCHDT\<close>

definition POV :: string where
  "POV = ''$POV''"

text \<open>
  \<^verbatim>\<open>format_POV\<close>: the string left at \<open>p\<close>. \<^verbatim>\<open>append_string\<close> is concatenation.
\<close>

definition format_POV ::
  "machine \<Rightarrow> real \<Rightarrow> real \<Rightarrow> real \<Rightarrow> real \<Rightarrow> real \<Rightarrow> bool \<Rightarrow> real \<Rightarrow> real \<Rightarrow> string" where
  "format_POV M TAS pabs pitot TEK_vario voltage airdata_available humidity temperature =
     (let p = POV;
          p = p @ '',E,'';
          p = p @ integer_to_ascii_2_decimals M (float_to_int M (float32_mul TEK_vario 100));
          p = p @ '',P,'';
          p = p @ integer_to_ascii_2_decimals M (float_to_int M pabs);
          pitot = (if pitot < 0 then 0 else pitot);
          p = p @ '',R,'';
          p = p @ integer_to_ascii_2_decimals M (float_to_int M pitot);
          p = p @ '',S,'';
          p = p @ integer_to_ascii_2_decimals M (float_to_int M (float32_mul TAS 360));
          p = p @ '',V,'';
          p = p @ integer_to_ascii_1_decimal M (float_to_int M (float32_mul voltage 10))
      in if airdata_available
         then
           let p = p @ '',H,'';
               p = p @ integer_to_ascii_2_decimals M (float_to_int M (float32_mul humidity 100));
               p = p @ '',T,''
           in p @ integer_to_ascii_2_decimals M (float_to_int M (float32_mul temperature 100))
         else p)"

definition HCHDT :: string where
  "HCHDT = ''$HCHDT,''"

definition format_HCHDT :: "machine \<Rightarrow> real \<Rightarrow> string" where
  "format_HCHDT M true_heading =
     (let heading = float_to_int M (float32_mul true_heading 573);
          heading = (if heading < 0 then heading + 3600 else heading);
          p = HCHDT;
          p = p @ integer_to_ascii_1_decimal M heading
      in p @ '',T'')"

subsection \<open>Checksum and tail\<close>

text \<open>Reading a C string: the byte after the last character is the terminator.\<close>

definition c_at :: "string \<Rightarrow> nat \<Rightarrow> char" where
  "c_at s i = (if i < length s then s ! i else CHR 0x00)"

definition hex4 :: "8 word \<Rightarrow> char" where
  "hex4 data = HEX ! unat data"

text \<open>
  The loop \<^verbatim>\<open>for( ; *p && *p != '*'; ++p) checksum ^= *p;\<close> shared by
  \<^verbatim>\<open>NMEA_checksum\<close> and \<^verbatim>\<open>NMEA_append_tail\<close>, started at index \<open>i\<close>: it returns the
  index where it stops and the checksum.
\<close>

function checksum_loop :: "string \<Rightarrow> nat \<Rightarrow> 8 word \<Rightarrow> nat \<times> 8 word" where
  "checksum_loop line i checksum =
     (if c_at line i \<noteq> CHR 0x00 \<and> c_at line i \<noteq> CHR ''*''
      then checksum_loop line (i + 1) (checksum XOR of_char (c_at line i))
      else (i, checksum))"
  by pat_completeness auto
termination
  by (relation "measure (\<lambda>(line, i, checksum). length line - i)")
     (auto simp: c_at_def split: if_splits)

declare checksum_loop.simps [simp del]

definition NMEA_checksum :: "string \<Rightarrow> bool" where
  "NMEA_checksum line =
     (if c_at line 0 \<noteq> CHR ''$'' then False
      else
        let (p, checksum) = checksum_loop line 1 0
        in (c_at line p = CHR ''*'' \<and> hex4 (drop_bit 4 checksum) = c_at line (p + 1))
           \<and> hex4 (checksum AND 0x0f) = c_at line (p + 2)
           \<and> c_at line (p + 3) = CHR 0x00)"

text \<open>
  \<^verbatim>\<open>NMEA_append_tail\<close>: \<open>None\<close> is the null pointer it returns for a buffer that does not
  start with a dollar sign. Otherwise the result is the C string left in the buffer; the
  pointer returned addresses its terminator.
\<close>

definition NMEA_append_tail :: "string \<Rightarrow> string option" where
  "NMEA_append_tail p =
     (if c_at p 0 \<noteq> CHR ''$'' then None
      else
        let (i, checksum) = checksum_loop p 1 0
        in Some (take i p @ [CHR ''*'', hex4 (drop_bit 4 checksum), hex4 (checksum AND 0x0f),
                             CHR 0x0D, CHR 0x0A]))"

section \<open>Vectors and matrices\<close>

text \<open>
  Modelled from the spec: the classes \<^verbatim>\<open>float3vector\<close> and \<^verbatim>\<open>float3matrix\<close> (3-vectors and
  3x3 matrices of \<^verbatim>\<open>float\<close>) are declared in headers that the sources only include. A
  vector has the components \<^verbatim>\<open>e[0]\<close>, \<^verbatim>\<open>e[1]\<close>, \<^verbatim>\<open>e[2]\<close>; the index names of the navigation
  frame (NORTH, EAST, DOWN), of the body frame (FRONT, RIGHT, DOWN) and of the rotation
  axes (ROLL, NICK, YAW) stand for 0, 1, 2.
\<close>

datatype float3vector = float3vector (e_0: real) (e_1: real) (e_2: real)

abbreviation "NORTH \<equiv> e_0"
abbreviation "EAST \<equiv> e_1"
abbreviation "DOWN \<equiv> e_2"
abbreviation "FRONT \<equiv> e_0"
abbreviation "RIGHT \<equiv> e_1"
abbreviation "ROLL \<equiv> e_0"
abbreviation "NICK \<equiv> e_1"
abbreviation "YAW \<equiv> e_2"

definition vector_add :: "float3vector \<Rightarrow> float3vector \<Rightarrow> float3vector" where
  "vector_add a b = float3vector (e_0 a + e_0 b) (e_1 a + e_1 b) (e_2 a + e_2 b)"

definition vector_sub :: "float3vector \<Rightarrow> float3vector \<Rightarrow> float3vector" where
  "vector_sub a b = float3vector (e_0 a - e_0 b) (e_1 a - e_1 b) (e_2 a - e_2 b)"

definition vector_scale :: "float3vector \<Rightarrow> real \<Rightarrow> float3vector" where
  "vector_scale a k = float3vector (e_0 a * k) (e_1 a * k) (e_2 a * k)"

definition scalar_product :: "float3vector \<Rightarrow> float3vector \<Rightarrow> real" where
  "scalar_product a b = e_0 a * e_0 b + e_1 a * e_1 b + e_2 a * e_2 b"

text \<open>Modelled from the spec: the macro \<^verbatim>\<open>SQR\<close> of embedded\_math.h, the square.\<close>

definition SQR :: "real \<Rightarrow> real" where
  "SQR x = x * x"

text \<open>A matrix is its three rows. \<^verbatim>\<open>reverse_map\<close> applies the transposed matrix.\<close>

datatype float3matrix = float3matrix (row_0: float3vector) (row_1: float3vector) (row_2: float3vector)

definition matrix_times_vector :: "float3matrix \<Rightarrow> float3vector \<Rightarrow> float3vector" where
  "matrix_times_vector m v =
     float3vector (scalar_product (row_0 m) v) (scalar_product (row_1 m) v)
       (scalar_product (row_2 m) v)"

definition reverse_map :: "float3matrix \<Rightarrow> float3vector \<Rightarrow> float3vector" where
  "reverse_map m v =
     float3vector
       (e_0 (row_0 m) * e_0 v + e_0 (row_1 m) * e_1 v + e_0 (row_2 m) * e_2 v)
       (e_1 (row_0 m) * e_0 v + e_1 (row_1 m) * e_1 v + e_1 (row_2 m) * e_2 v)
       (e_2 (row_0 m) * e_0 v + e_2 (row_1 m) * e_1 v + e_2 (row_2 m) * e_2 v)"

section \<open>AHRS (AHRS.cpp)\<close>

datatype circle_state_t = STRAIGHT_FLIGHT | TRANSITION | CIRCLING

record eulerangle =
  r :: real
  n :: real
  y :: real

text \<open>
  The macros of NAV\_tuning\_parameters.h, system\_configuration.h and embedded\_math.h
  that AHRS.cpp reads. The headers are not part of the sources, so the values are
  parameters of the model.
\<close>

record tuning =
  DISABLE_CIRCLING_STATE :: bool
  CROSS_GAIN_ONLY :: bool
  CIRCLE_LIMIT :: int
  HIGH_TURN_RATE :: real
  LOW_TURN_RATE :: real
  M_PI_F :: real
  P_GAIN :: real
  I_GAIN :: real
  H_GAIN :: real
  CROSS_GAIN :: real
  M_H_GAIN :: real
  NAV_CORRECTION_LIMIT :: real
  MAG_SCALE :: real
  INDUCTION_STD_DEVIATION_LIMIT :: real

text \<open>
  The classes and functions that AHRS.cpp calls and that are declared elsewhere: the
  quaternion \<open>'q\<close>, the averager \<open>'av\<close>, the compass calibration \<open>'cal\<close>, the
  regression collector \<open>'col\<close> of one axis, the earth induction collector \<open>'eic\<close>, and
  the mathematical functions. A method that changes its object returns the new object.
  \<^verbatim>\<open>isCalibrationDone\<close>, \<^verbatim>\<open>calibrate\<close> and the getters only read.
\<close>

record ('q, 'av, 'cal, 'col, 'eic) library =
  SIN :: "real \<Rightarrow> real"
  COS :: "real \<Rightarrow> real"
  ATAN2 :: "real \<Rightarrow> real \<Rightarrow> real"
  SQRT :: "real \<Rightarrow> real"
  quaternion_rotate :: "'q \<Rightarrow> real \<Rightarrow> real \<Rightarrow> real \<Rightarrow> 'q"
  quaternion_normalize :: "'q \<Rightarrow> 'q"
  quaternion_get_rotation_matrix :: "'q \<Rightarrow> float3matrix"
  quaternion_to_eulerangle :: "'q \<Rightarrow> eulerangle"
  averager_respond :: "'av \<Rightarrow> real \<Rightarrow> 'av"
  averager_get_output :: "'av \<Rightarrow> real"
  isCalibrationDone :: "'cal \<Rightarrow> bool"
  calibrate :: "'cal \<Rightarrow> float3vector \<Rightarrow> float3vector"
  set_calibration_if_changed ::
    "'cal \<Rightarrow> (nat \<Rightarrow> 'col) \<Rightarrow> real \<Rightarrow> bool \<Rightarrow> bool \<times> 'cal \<times> (nat \<Rightarrow> 'col)"
  get_calibration :: "'cal \<Rightarrow> nat \<Rightarrow> real \<times> real"
  add_value :: "'col \<Rightarrow> real \<Rightarrow> real \<Rightarrow> 'col"
  earth_induction_feed :: "'eic \<Rightarrow> float3vector \<Rightarrow> bool \<Rightarrow> 'eic"
  earth_induction_data_valid :: "'eic \<Rightarrow> bool"
  earth_induction_get_variance :: "'eic \<Rightarrow> real"
  earth_induction_get_estimated_induction :: "'eic \<Rightarrow> float3vector"
  earth_induction_reset :: "'eic \<Rightarrow> 'eic"
  magnetic_loop_gain :: "float3vector \<Rightarrow> real"

text \<open>\<^verbatim>\<open>float3vector::abs\<close>, the length, and \<^verbatim>\<open>float3vector::normalize\<close>.\<close>

definition vector_abs :: "('q, 'av, 'cal, 'col, 'eic) library \<Rightarrow> float3vector \<Rightarrow> real" where
  "vector_abs L v = SQRT L (scalar_product v v)"

definition vector_normalize ::
  "('q, 'av, 'cal, 'col, 'eic) library \<Rightarrow> float3vector \<Rightarrow> float3vector" where
  "vector_normalize L v = vector_scale v (1 / vector_abs L v)"

text \<open>What \<^verbatim>\<open>report_magnetic_calibration_has_changed\<close> is called with.\<close>

record magnetic_induction_report_t =
  calibration :: "(real \<times> real) list"
  nav_induction :: float3vector
  nav_induction_std_deviation :: real

text \<open>
  The members of \<^verbatim>\<open>AHRS_type\<close> that AHRS.cpp uses. \<open>reports\<close> is not a member: it
  collects the calls of \<^verbatim>\<open>report_magnetic_calibration_has_changed\<close>, the latest first.
\<close>

record ('q, 'av, 'cal, 'col, 'eic) AHRS_type =
  Ts :: real
  Ts_div_2 :: real
  attitude :: 'q
  body2nav :: float3matrix
  euler :: eulerangle
  acceleration_nav_frame :: float3vector
  induction_nav_frame :: float3vector
  nav_correction :: float3vector
  gyro_correction :: float3vector
  gyro_integrator :: float3vector
  circling_counter :: int
  circling_state :: circle_state_t
  slip_angle_averager :: 'av
  nick_angle_averager :: 'av
  turn_rate_averager :: 'av
  G_load_averager :: 'av
  antenna_DOWN_correction :: real
  antenna_RIGHT_correction :: real
  heading_difference_AHRS_DGNSS :: real
  magnetic_disturbance :: real
  magnetic_control_gain :: real
  expected_nav_induction :: float3vector
  automatic_magnetic_calibration :: bool
  automatic_earth_field_parameters :: bool
  compass_calibration :: 'cal
  mag_calibration_data_collector :: "nat \<Rightarrow> 'col"
  earth_induction_data_collector :: 'eic
  reports :: "(magnetic_induction_report_t \<times> char) list"

text \<open>
  \<^verbatim>\<open>update_circling_state\<close>. The second test reads the counter that the first one may
  have incremented.
\<close>

definition update_circling_state ::
  "tuning \<Rightarrow> ('q, 'av, 'cal, 'col, 'eic) library \<Rightarrow> ('q, 'av, 'cal, 'col, 'eic) AHRS_type
   \<Rightarrow> circle_state_t \<times> ('q, 'av, 'cal, 'col, 'eic) AHRS_type" where
  "update_circling_state T L s =
     (if DISABLE_CIRCLING_STATE T then (STRAIGHT_FLIGHT, s)
      else
        let turn_rate_abs = \<bar>averager_get_output L (turn_rate_averager s)\<bar>;
            s = (if circling_counter s < CIRCLE_LIMIT T
                 then (if turn_rate_abs > HIGH_TURN_RATE T
                       then s\<lparr>circling_counter := circling_counter s + 1\<rparr> else s)
                 else s);
            s = (if circling_counter s > 0
                 then (if turn_rate_abs < LOW_TURN_RATE T
                       then s\<lparr>circling_counter := circling_counter s - 1\<rparr> else s)
                 else s);
            s = (if circling_counter s = 0 then s\<lparr>circling_state := STRAIGHT_FLIGHT\<rparr>
                 else if circling_counter s = CIRCLE_LIMIT T then s\<lparr>circling_state := CIRCLING\<rparr>
                 else s\<lparr>circling_state := TRANSITION\<rparr>)
        in (circling_state s, s))"

definition feed_magnetic_induction_observer ::
  "tuning \<Rightarrow> ('q, 'av, 'cal, 'col, 'eic) library \<Rightarrow> float3vector
   \<Rightarrow> ('q, 'av, 'cal, 'col, 'eic) AHRS_type \<Rightarrow> ('q, 'av, 'cal, 'col, 'eic) AHRS_type" where
  "feed_magnetic_induction_observer T L mag_sensor s =
     (let expected_body_induction = reverse_map (body2nav s) (expected_nav_induction s);
          c = mag_calibration_data_collector s;
          c = c(0 := add_value L (c 0) (MAG_SCALE T * e_0 expected_body_induction)
                       (MAG_SCALE T * e_0 mag_sensor));
          c = c(1 := add_value L (c 1) (MAG_SCALE T * e_1 expected_body_induction)
                       (MAG_SCALE T * e_1 mag_sensor));
          c = c(2 := add_value L (c 2) (MAG_SCALE T * e_2 expected_body_induction)
                       (MAG_SCALE T * e_2 mag_sensor))
      in s\<lparr>mag_calibration_data_collector := c,
            earth_induction_data_collector :=
              earth_induction_feed L (earth_induction_data_collector s) (induction_nav_frame s)
                (averager_get_output L (turn_rate_averager s) > 0)\<rparr>)"

definition update_attitude ::
  "('q, 'av, 'cal, 'col, 'eic) library \<Rightarrow> float3vector \<Rightarrow> float3vector \<Rightarrow> float3vector
   \<Rightarrow> ('q, 'av, 'cal, 'col, 'eic) AHRS_type \<Rightarrow> ('q, 'av, 'cal, 'col, 'eic) AHRS_type" where
  "update_attitude L acc gyro mag s =
     (let s = s\<lparr>attitude := quaternion_rotate L (attitude s) (ROLL gyro * Ts_div_2 s)
                               (NICK gyro * Ts_div_2 s) (YAW gyro * Ts_div_2 s)\<rparr>;
          s = s\<lparr>attitude := quaternion_normalize L (attitude s)\<rparr>;
          s = s\<lparr>body2nav := quaternion_get_rotation_matrix L (attitude s)\<rparr>;
          s = s\<lparr>acceleration_nav_frame := matrix_times_vector (body2nav s) acc\<rparr>;
          s = s\<lparr>induction_nav_frame := matrix_times_vector (body2nav s) mag\<rparr>;
          s = s\<lparr>euler := quaternion_to_eulerangle L (attitude s)\<rparr>;
          nav_rotation = matrix_times_vector (body2nav s) gyro;
          s = s\<lparr>turn_rate_averager := averager_respond L (turn_rate_averager s) (DOWN nav_rotation)\<rparr>;
          s = s\<lparr>slip_angle_averager :=
                  averager_respond L (slip_angle_averager s) (ATAN2 L (- RIGHT acc) (- DOWN acc))\<rparr>;
          s = s\<lparr>nick_angle_averager :=
                  averager_respond L (nick_angle_averager s) (ATAN2 L (FRONT acc) (- DOWN acc))\<rparr>;
          s = s\<lparr>G_load_averager := averager_respond L (G_load_averager s) (vector_abs L acc)\<rparr>
      in s\<lparr>magnetic_disturbance :=
              vector_abs L (vector_sub (induction_nav_frame s) (expected_nav_induction s))\<rparr>)"

definition handle_magnetic_calibration ::
  "tuning \<Rightarrow> ('q, 'av, 'cal, 'col, 'eic) library \<Rightarrow> char
   \<Rightarrow> ('q, 'av, 'cal, 'col, 'eic) AHRS_type \<Rightarrow> ('q, 'av, 'cal, 'col, 'eic) AHRS_type" where
  "handle_magnetic_calibration T L type s =
     (let (calibration_changed, cal, col) =
            set_calibration_if_changed L (compass_calibration s) (mag_calibration_data_collector s)
              (MAG_SCALE T) (averager_get_output L (turn_rate_averager s) > 0);
          s = s\<lparr>compass_calibration := cal, mag_calibration_data_collector := col\<rparr>;
          induction_error = 0;
          (calibration_changed, induction_error, s) =
            (if earth_induction_data_valid L (earth_induction_data_collector s)
             then
               let induction_error = SQRT L (earth_induction_get_variance L (earth_induction_data_collector s));
                   (calibration_changed, s) =
                     (if automatic_earth_field_parameters s
                          \<and> induction_error < INDUCTION_STD_DEVIATION_LIMIT T
                      then
                        let s = s\<lparr>expected_nav_induction :=
                                     earth_induction_get_estimated_induction L (earth_induction_data_collector s)\<rparr>;
                            s = s\<lparr>expected_nav_induction := vector_normalize L (expected_nav_induction s)\<rparr>;
                            s = s\<lparr>magnetic_control_gain := magnetic_loop_gain L (expected_nav_induction s)\<rparr>
                        in (True, s)
                      else (calibration_changed, s))
               in (calibration_changed, induction_error,
                   s\<lparr>earth_induction_data_collector :=
                       earth_induction_reset L (earth_induction_data_collector s)\<rparr>)
             else (calibration_changed, induction_error, s))
      in if calibration_changed
         then
           let magnetic_induction_report =
                 \<lparr>calibration = map (get_calibration L (compass_calibration s)) [0, 1, 2],
                  nav_induction = expected_nav_induction s,
                  nav_induction_std_deviation = induction_error\<rparr>
           in s\<lparr>reports := (magnetic_induction_report, type) # reports s\<rparr>
         else s)"

text \<open>
  \<^verbatim>\<open>update_diff_GNSS\<close>. The three components of \<open>nav_correction\<close> are assigned one by
  one in the source; each path assigns all three, so the model builds the vector at once.
\<close>

definition update_diff_GNSS ::
  "tuning \<Rightarrow> ('q, 'av, 'cal, 'col, 'eic) library
   \<Rightarrow> float3vector \<Rightarrow> float3vector \<Rightarrow> float3vector \<Rightarrow> float3vector \<Rightarrow> real
   \<Rightarrow> ('q, 'av, 'cal, 'col, 'eic) AHRS_type \<Rightarrow> ('q, 'av, 'cal, 'col, 'eic) AHRS_type" where
  "update_diff_GNSS T L gyro acc mag_sensor GNSS_acceleration GNSS_heading s =
     (let old_circle_state = circling_state s;
          s = snd (update_circling_state T L s);
          mag = (if isCalibrationDone L (compass_calibration s)
                 then calibrate L (compass_calibration s) mag_sensor else mag_sensor);
          nav_acceleration = matrix_times_vector (body2nav s) acc;
          nav_induction = matrix_times_vector (body2nav s) mag;
          heading_gnss_work = GNSS_heading
              + antenna_DOWN_correction s * SIN L (r (euler s))
              - antenna_RIGHT_correction s * COS L (r (euler s));
          heading_gnss_work = heading_gnss_work - y (euler s);
          heading_gnss_work = (if heading_gnss_work > M_PI_F T
                               then heading_gnss_work - 2 * M_PI_F T else heading_gnss_work);
          heading_gnss_work = (if heading_gnss_work < - M_PI_F T
                               then heading_gnss_work + 2 * M_PI_F T else heading_gnss_work);
          s = s\<lparr>heading_difference_AHRS_DGNSS := heading_gnss_work\<rparr>;
          correction_NORTH = - EAST nav_acceleration + EAST GNSS_acceleration;
          correction_EAST = NORTH nav_acceleration - NORTH GNSS_acceleration;
          correction_DOWN =
            (if circling_state s = CIRCLING
             then
               let cross_correction =
                     NORTH nav_acceleration * EAST GNSS_acceleration
                     - EAST nav_acceleration * NORTH GNSS_acceleration
               in if CROSS_GAIN_ONLY T then cross_correction * CROSS_GAIN T
                  else
                    let mag_correction =
                          NORTH nav_induction * EAST (expected_nav_induction s)
                          - EAST nav_induction * NORTH (expected_nav_induction s)
                    in cross_correction * CROSS_GAIN T + mag_correction * magnetic_control_gain s
             else heading_gnss_work * H_GAIN T);
          s = s\<lparr>nav_correction := float3vector correction_NORTH correction_EAST correction_DOWN\<rparr>;
          s = s\<lparr>gyro_correction := reverse_map (body2nav s) (nav_correction s)\<rparr>;
          s = s\<lparr>gyro_correction := vector_scale (gyro_correction s) (P_GAIN T)\<rparr>;
          s = (if circling_state s = STRAIGHT_FLIGHT
               then s\<lparr>gyro_integrator := vector_add (gyro_integrator s) (gyro_correction s)\<rparr>
               else s);
          s = s\<lparr>gyro_correction :=
                  vector_add (gyro_correction s) (vector_scale (gyro_integrator s) (I_GAIN T))\<rparr>;
          s = update_attitude L acc (vector_add gyro (gyro_correction s)) mag s;
          s = (if circling_state s = CIRCLING
                  \<and> vector_abs L (nav_correction s) < NAV_CORRECTION_LIMIT T
               then feed_magnetic_induction_observer T L mag_sensor s else s)
      in if automatic_magnetic_calibration s \<and> old_circle_state = CIRCLING
            \<and> circling_state s = TRANSITION
         then handle_magnetic_calibration T L (CHR ''s'') s
         else s)"

text \<open>
  \<^verbatim>\<open>update_compass\<close>. The labels \<^verbatim>\<open>case STRAIGHT_FLIGHT:\<close> and \<^verbatim>\<open>case TRANSITION:\<close> of
  the switch share one body, \<open>straight_or_transition_case\<close>.
\<close>

definition update_compass ::
  "tuning \<Rightarrow> ('q, 'av, 'cal, 'col, 'eic) library
   \<Rightarrow> float3vector \<Rightarrow> float3vector \<Rightarrow> float3vector \<Rightarrow> float3vector
   \<Rightarrow> ('q, 'av, 'cal, 'col, 'eic) AHRS_type \<Rightarrow> ('q, 'av, 'cal, 'col, 'eic) AHRS_type" where
  "update_compass T L gyro acc mag_sensor GNSS_acceleration s =
     (let mag = (if isCalibrationDone L (compass_calibration s)
                 then calibrate L (compass_calibration s) mag_sensor else mag_sensor);
          nav_acceleration = matrix_times_vector (body2nav s) acc;
          nav_induction = matrix_times_vector (body2nav s) mag;
          correction_NORTH = - EAST nav_acceleration + EAST GNSS_acceleration;
          correction_EAST = NORTH nav_acceleration - NORTH GNSS_acceleration;
          old_circle_state = circling_state s;
          s = snd (update_circling_state T L s);
          mag_correction =
            NORTH nav_induction * EAST (expected_nav_induction s)
            - EAST nav_induction * NORTH (expected_nav_induction s);
          straight_or_transition_case = (\<lambda>s.
            let correction_DOWN = magnetic_control_gain s * mag_correction;
                s = s\<lparr>nav_correction :=
                        float3vector correction_NORTH correction_EAST correction_DOWN\<rparr>;
                s = s\<lparr>gyro_correction := reverse_map (body2nav s) (nav_correction s)\<rparr>;
                s = s\<lparr>gyro_correction := vector_scale (gyro_correction s) (P_GAIN T)\<rparr>
            in s\<lparr>gyro_integrator := vector_add (gyro_integrator s) (gyro_correction s)\<rparr>);
          s = (case circling_state s of
                 STRAIGHT_FLIGHT \<Rightarrow> straight_or_transition_case s
               | TRANSITION \<Rightarrow> straight_or_transition_case s
               | CIRCLING \<Rightarrow>
                   let cross_correction =
                         NORTH nav_acceleration * EAST GNSS_acceleration
                         - EAST nav_acceleration * NORTH GNSS_acceleration;
                       correction_DOWN =
                         (if CROSS_GAIN_ONLY T then cross_correction * CROSS_GAIN T
                          else cross_correction * CROSS_GAIN T + mag_correction * M_H_GAIN T);
                       s = s\<lparr>nav_correction :=
                               float3vector correction_NORTH correction_EAST correction_DOWN\<rparr>;
                       s = s\<lparr>gyro_correction := reverse_map (body2nav s) (nav_correction s)\<rparr>
                   in s\<lparr>gyro_correction := vector_scale (gyro_correction s) (P_GAIN T)\<rparr>);
          s = s\<lparr>gyro_correction :=
                  vector_add (gyro_correction s) (vector_scale (gyro_integrator s) (I_GAIN T))\<rparr>;
          s = update_attitude L acc (vector_add gyro (gyro_correction s)) mag s;
          s = (if circling_state s = CIRCLING
                  \<and> vector_abs L (nav_correction s) < NAV_CORRECTION_LIMIT T
               then feed_magnetic_induction_observer T L mag_sensor s else s)
      in if automatic_magnetic_calibration s \<and> old_circle_state = CIRCLING
            \<and> circling_state s = TRANSITION
         then handle_magnetic_calibration T L (CHR ''m'') s
         else s)"

definition update_ACC_only ::
  "tuning \<Rightarrow> ('q, 'av, 'cal, 'col, 'eic) library
   \<Rightarrow> float3vector \<Rightarrow> float3vector \<Rightarrow> float3vector \<Rightarrow> float3vector
   \<Rightarrow> ('q, 'av, 'cal, 'col, 'eic) AHRS_type \<Rightarrow> ('q, 'av, 'cal, 'col, 'eic) AHRS_type" where
  "update_ACC_only T L gyro acc mag GNSS_acceleration s =
     (let nav_acceleration = matrix_times_vector (body2nav s) acc;
          correction_NORTH = - EAST nav_acceleration + EAST GNSS_acceleration;
          correction_EAST = NORTH nav_acceleration - NORTH GNSS_acceleration;
          s = snd (update_circling_state T L s);
          cross_correction =
            NORTH nav_acceleration * EAST GNSS_acceleration
            - EAST nav_acceleration * NORTH GNSS_acceleration;
          cross_correction = (if circling_state s = STRAIGHT_FLIGHT
                              then cross_correction * 40 else cross_correction);
          correction_DOWN = cross_correction * CROSS_GAIN T;
          s = s\<lparr>nav_correction := float3vector correction_NORTH correction_EAST correction_DOWN\<rparr>;
          s = s\<lparr>gyro_correction := reverse_map (body2nav s) (nav_correction s)\<rparr>;
          s = s\<lparr>gyro_correction := vector_scale (gyro_correction s) (P_GAIN T)\<rparr>;
          s = s\<lparr>gyro_integrator := vector_add (gyro_integrator s) (gyro_correction s)\<rparr>;
          s = s\<lparr>gyro_correction :=
                  vector_add (gyro_correction s) (vector_scale (gyro_integrator s) (I_GAIN T))\<rparr>
      in update_attitude L acc (vector_add gyro (gyro_correction s)) mag s)"

text \<open>\<^verbatim>\<open>AHRS_type::update\<close>, the entry point of a tick.\<close>

definition update ::
  "tuning \<Rightarrow> ('q, 'av, 'cal, 'col, 'eic) library
   \<Rightarrow> float3vector \<Rightarrow> float3vector \<Rightarrow> float3vector \<Rightarrow> float3vector \<Rightarrow> real \<Rightarrow> bool
   \<Rightarrow> ('q, 'av, 'cal, 'col, 'eic) AHRS_type \<Rightarrow> ('q, 'av, 'cal, 'col, 'eic) AHRS_type" where
  "update T L gyro acc mag GNSS_acceleration GNSS_heading GNSS_heading_valid s =
     (if GNSS_heading_valid
      then update_diff_GNSS T L gyro acc mag GNSS_acceleration GNSS_heading s
      else update_compass T L gyro acc mag GNSS_acceleration s)"

text \<open>
  The proportional correction of a tick, \<^verbatim>\<open>gyro_correction\<close> after the statement
  \<^verbatim>\<open>gyro_correction *= P_GAIN\<close>: the amount by which the statement
  \<^verbatim>\<open>gyro_integrator += gyro_correction\<close> advances the integrator.
\<close>

definition proportional_correction :: "tuning \<Rightarrow> float3matrix \<Rightarrow> float3vector \<Rightarrow> float3vector" where
  "proportional_correction T m correction = vector_scale (reverse_map m correction) (P_GAIN T)"

text \<open>
  The value of \<^verbatim>\<open>heading_gnss_work\<close> in \<^verbatim>\<open>update_diff_GNSS\<close> before the two statements that
  wrap it: the GNSS heading corrected for the antenna alignment, minus the estimated yaw.
\<close>

definition heading_difference_raw ::
  "('q, 'av, 'cal, 'col, 'eic) library \<Rightarrow> real \<Rightarrow> ('q, 'av, 'cal, 'col, 'eic) AHRS_type \<Rightarrow> real" where
  "heading_difference_raw L GNSS_heading s =
     GNSS_heading + antenna_DOWN_correction s * SIN L (r (euler s))
       - antenna_RIGHT_correction s * COS L (r (euler s)) - y (euler s)"

section \<open>Flight observer (flight\_observer.cpp)\<close>

definition ONE_DIV_BY_GRAVITY_TIMES_2 :: real where
  "ONE_DIV_BY_GRAVITY_TIMES_2 = 0.0509684"

definition RECIP_GRAVITY :: real where
  "RECIP_GRAVITY = 0.1094"

datatype KalmanVario_PVA_component = ALTITUDE | VARIO | ACCELERATION_OBSERVED

datatype Kalman_V_A_Aoff_component = VELOCITY | ACCELERATION | ACCELERATION_OFFSET

text \<open>
  The filter classes of flight\_observer.h, declared outside the sources: the two vertical
  Kalman filters \<open>'kp\<close> and \<open>'kg\<close>, the horizontal Kalman filter \<open>'kh\<close>, the
  differentiator \<open>'d\<close>, the variometer averager \<open>'va\<close>, the wind decimator \<open>'w\<close> and
  the fusion blender \<open>'f\<close>. A method returns its value and the new object.
\<close>

record ('kp, 'kg, 'kh, 'd, 'va, 'w, 'f) filters =
  KalmanVario_update :: "'kp \<Rightarrow> real \<Rightarrow> real \<Rightarrow> real \<times> 'kp"
  KalmanVario_PVA_update :: "'kg \<Rightarrow> real \<Rightarrow> real \<Rightarrow> real \<Rightarrow> real \<times> 'kg"
  KalmanVario_PVA_get_x :: "'kg \<Rightarrow> KalmanVario_PVA_component \<Rightarrow> real"
  Kalman_V_A_Aoff_update :: "'kh \<Rightarrow> real \<Rightarrow> real \<Rightarrow> 'kh"
  Kalman_V_A_Aoff_get_x :: "'kh \<Rightarrow> Kalman_V_A_Aoff_component \<Rightarrow> real"
  differentiator_respond :: "'d \<Rightarrow> real \<Rightarrow> real \<times> 'd"
  vario_averager_respond :: "'va \<Rightarrow> real \<Rightarrow> 'va"
  decimator_respond :: "'w \<Rightarrow> float3vector \<Rightarrow> 'w"
  fusioner_respond :: "'f \<Rightarrow> real \<Rightarrow> real \<Rightarrow> real \<times> 'f"

record ('kp, 'kg, 'kh, 'd, 'va, 'w, 'f) flight_observer_t =
  KalmanVario_pressure :: 'kp
  KalmanVario_GNSS :: 'kg
  Kalman_v_a_observer_N :: 'kh
  Kalman_v_a_observer_E :: 'kh
  kinetic_energy_differentiator :: 'd
  specific_energy_differentiator :: 'd
  vario_averager_pressure :: 'va
  vario_averager_GNSS :: 'va
  windspeed_decimator_100Hz_10Hz :: 'w
  GNSS_INS_speedcomp_fusioner :: 'f
  vario_uncompensated_pressure :: real
  vario_uncompensated_GNSS :: real
  speed_compensation_IAS :: real
  speed_compensation_GNSS :: real
  speed_compensation_INS_GNSS_1 :: real
  speed_compensation_kalman_2 :: real
  speed_compensation_energy_3 :: real
  specific_energy :: real
  vertical_energy_tuning_factor :: real

definition update_every_10ms ::
  "('kp, 'kg, 'kh, 'd, 'va, 'w, 'f) filters
   \<Rightarrow> float3vector \<Rightarrow> float3vector \<Rightarrow> float3vector \<Rightarrow> float3vector
   \<Rightarrow> real \<Rightarrow> real \<Rightarrow> real \<Rightarrow> real \<Rightarrow> circle_state_t \<Rightarrow> float3vector \<Rightarrow> bool
   \<Rightarrow> ('kp, 'kg, 'kh, 'd, 'va, 'w, 'f) flight_observer_t
   \<Rightarrow> ('kp, 'kg, 'kh, 'd, 'va, 'w, 'f) flight_observer_t" where
  "update_every_10ms F gnss_velocity gnss_acceleration ahrs_acceleration heading_vector
       GNSS_negative_altitude pressure_altitude TAS IAS circle_state wind_average
       GNSS_fix_avaliable s =
     (let (v, k) = KalmanVario_update F (KalmanVario_pressure s) pressure_altitude
                     (DOWN ahrs_acceleration);
          s = s\<lparr>KalmanVario_pressure := k, vario_uncompensated_pressure := v\<rparr>;
          (v, d) = differentiator_respond F (kinetic_energy_differentiator s)
                     (IAS * IAS * ONE_DIV_BY_GRAVITY_TIMES_2);
          s = s\<lparr>kinetic_energy_differentiator := d, speed_compensation_IAS := v\<rparr>;
          s = s\<lparr>vario_averager_pressure :=
                  vario_averager_respond F (vario_averager_pressure s)
                    (speed_compensation_IAS s - vario_uncompensated_pressure s)\<rparr>
      in if \<not> GNSS_fix_avaliable
         then
           let s = s\<lparr>vario_uncompensated_GNSS := vario_uncompensated_pressure s\<rparr>;
               s = s\<lparr>speed_compensation_GNSS := speed_compensation_IAS s\<rparr>
           in s\<lparr>vario_averager_GNSS :=
                   vario_averager_respond F (vario_averager_GNSS s)
                     (speed_compensation_IAS s - vario_uncompensated_pressure s)\<rparr>
         else
           let air_velocity = vector_scale heading_vector TAS;
               s = s\<lparr>windspeed_decimator_100Hz_10Hz :=
                       decimator_respond F (windspeed_decimator_100Hz_10Hz s)
                         (vector_sub gnss_velocity air_velocity)\<rparr>;
               (v, k) = KalmanVario_PVA_update F (KalmanVario_GNSS s) GNSS_negative_altitude
                          (DOWN gnss_velocity) (DOWN ahrs_acceleration);
               s = s\<lparr>KalmanVario_GNSS := k, vario_uncompensated_GNSS := - v\<rparr>;
               air_velocity = vector_sub gnss_velocity wind_average;
               air_velocity = float3vector (NORTH air_velocity) (EAST air_velocity)
                                (KalmanVario_PVA_get_x F (KalmanVario_GNSS s) VARIO);
               acceleration = ahrs_acceleration;
               acceleration = float3vector (NORTH acceleration) (EAST acceleration)
                                (KalmanVario_PVA_get_x F (KalmanVario_GNSS s) ACCELERATION_OBSERVED);
               s = s\<lparr>speed_compensation_INS_GNSS_1 :=
                       scalar_product air_velocity acceleration * RECIP_GRAVITY\<rparr>;
               s = s\<lparr>Kalman_v_a_observer_N :=
                       Kalman_V_A_Aoff_update F (Kalman_v_a_observer_N s)
                         (NORTH gnss_velocity - NORTH wind_average) (NORTH ahrs_acceleration)\<rparr>;
               s = s\<lparr>Kalman_v_a_observer_E :=
                       Kalman_V_A_Aoff_update F (Kalman_v_a_observer_E s)
                         (EAST gnss_velocity - EAST wind_average) (EAST ahrs_acceleration)\<rparr>;
               s = s\<lparr>speed_compensation_kalman_2 :=
                       (Kalman_V_A_Aoff_get_x F (Kalman_v_a_observer_N s) VELOCITY
                          * Kalman_V_A_Aoff_get_x F (Kalman_v_a_observer_N s) ACCELERATION
                        + Kalman_V_A_Aoff_get_x F (Kalman_v_a_observer_E s) VELOCITY
                          * Kalman_V_A_Aoff_get_x F (Kalman_v_a_observer_E s) ACCELERATION
                        + KalmanVario_PVA_get_x F (KalmanVario_GNSS s) VARIO
                          * KalmanVario_PVA_get_x F (KalmanVario_GNSS s) ACCELERATION_OBSERVED
                          * vertical_energy_tuning_factor s)
                       * RECIP_GRAVITY\<rparr>;
               s = s\<lparr>specific_energy :=
                       (SQR (NORTH gnss_velocity - NORTH wind_average)
                        + SQR (EAST gnss_velocity - EAST wind_average)
                        + SQR (DOWN gnss_velocity) * vertical_energy_tuning_factor s)
                       * ONE_DIV_BY_GRAVITY_TIMES_2\<rparr>;
               (v, d) = differentiator_respond F (specific_energy_differentiator s) (specific_energy s);
               s = s\<lparr>specific_energy_differentiator := d, speed_compensation_energy_3 := v\<rparr>;
               (v, f) = fusioner_respond F (GNSS_INS_speedcomp_fusioner s)
                          (0.5 * (speed_compensation_INS_GNSS_1 s + speed_compensation_kalman_2 s))
                          (speed_compensation_energy_3 s);
               s = s\<lparr>GNSS_INS_speedcomp_fusioner := f, speed_compensation_GNSS := v\<rparr>
           in s\<lparr>vario_averager_GNSS :=
                   vario_averager_respond F (vario_averager_GNSS s)
                     (vario_uncompensated_GNSS s + speed_compensation_GNSS s)\<rparr>)"

section \<open>An instance of the parameters\<close>

text \<open>
  The theorems hold for every value of the parameters. To evaluate the model on concrete
  ticks, the parameters are instantiated here: tuning values in the usual order of
  magnitude, \<open>M_PI_F\<close> the \<^verbatim>\<open>float\<close> nearest to pi, and small filters for the classes. The
  quaternion is kept fixed at the level attitude; an averager holds the mean of its
  output and its input; the compass calibration counts its commits; a collector counts
  its samples. The mathematical functions are the leading terms of their series and,
  for the square root, three steps of Heron's iteration, so that the instance computes
  on rational numbers.
\<close>

definition example_tuning :: tuning where
  "example_tuning =
     \<lparr>DISABLE_CIRCLING_STATE = False, CROSS_GAIN_ONLY = False, CIRCLE_LIMIT = 1000,
      HIGH_TURN_RATE = 0.15, LOW_TURN_RATE = 0.07, M_PI_F = 13176795 / 4194304,
      P_GAIN = 0.03, I_GAIN = 0.00006, H_GAIN = 38, CROSS_GAIN = 0.05, M_H_GAIN = 6,
      NAV_CORRECTION_LIMIT = 5, MAG_SCALE = 10000, INDUCTION_STD_DEVIATION_LIMIT = 0.03\<rparr>"

definition identity_matrix :: float3matrix where
  "identity_matrix =
     float3matrix (float3vector 1 0 0) (float3vector 0 1 0) (float3vector 0 0 1)"

definition heron_sqrt :: "real \<Rightarrow> real" where
  "heron_sqrt x =
     (if x \<le> 0 then 0
      else
        let g = (1 + x) / 2;
            g = (g + x / g) / 2;
            g = (g + x / g) / 2
        in (g + x / g) / 2)"

definition example_library :: "(unit, real, nat, nat, nat) library" where
  "example_library =
     \<lparr>SIN = (\<lambda>x. x - x ^ 3 / 6 + x ^ 5 / 120),
      COS = (\<lambda>x. 1 - x ^ 2 / 2 + x ^ 4 / 24),
      ATAN2 = (\<lambda>a b. if b = 0 then 0 else a / b - (a / b) ^ 3 / 3),
      SQRT = heron_sqrt,
      quaternion_rotate = (\<lambda>q p0 p1 p2. q),
      quaternion_normalize = (\<lambda>q. q),
      quaternion_get_rotation_matrix = (\<lambda>q. identity_matrix),
      quaternion_to_eulerangle = (\<lambda>q. \<lparr>r = 0, n = 0, y = 0\<rparr>),
      averager_respond = (\<lambda>a x. (a + x) / 2),
      averager_get_output = (\<lambda>a. a),
      isCalibrationDone = (\<lambda>c. False),
      calibrate = (\<lambda>c v. v),
      set_calibration_if_changed = (\<lambda>cal col scale right. (True, cal + 1, col)),
      get_calibration = (\<lambda>cal i. (0, 1)),
      add_value = (\<lambda>c a b. c + 1),
      earth_induction_feed = (\<lambda>c v right. c + 1),
      earth_induction_data_valid = (\<lambda>c. False),
      earth_induction_get_variance = (\<lambda>c. 0),
      earth_induction_get_estimated_induction = (\<lambda>c. float3vector 1 0 0),
      earth_induction_reset = (\<lambda>c. 0),
      magnetic_loop_gain = (\<lambda>v. 1)\<rparr>"

text \<open>A state with the counter \<open>c\<close>, the circling state \<open>st\<close> and the filtered turn rate \<open>t\<close>.\<close>

definition example_AHRS :: "int \<Rightarrow> circle_state_t \<Rightarrow> real \<Rightarrow> (unit, real, nat, nat, nat) AHRS_type" where
  "example_AHRS c st t =
     \<lparr>Ts = 0.01, Ts_div_2 = 0.005, attitude = (), body2nav = identity_matrix,
      euler = \<lparr>r = 0, n = 0, y = 0\<rparr>,
      acceleration_nav_frame = float3vector 0 0 0, induction_nav_frame = float3vector 0 0 0,
      nav_correction = float3vector 0 0 0, gyro_correction = float3vector 0 0 0,
      gyro_integrator = float3vector 0 0 0,
      circling_counter = c, circling_state = st,
      slip_angle_averager = 0, nick_angle_averager = 0, turn_rate_averager = t,
      G_load_averager = 0,
      antenna_DOWN_correction = 0, antenna_RIGHT_correction = 0,
      heading_difference_AHRS_DGNSS = 0, magnetic_disturbance = 0, magnetic_control_gain = 1,
      expected_nav_induction = float3vector 1 0 0,
      automatic_magnetic_calibration = True, automatic_earth_field_parameters = True,
      compass_calibration = 0, mag_calibration_data_collector = (\<lambda>i. 0),
      earth_induction_data_collector = 0, reports = []\<rparr>"

text \<open>
  Filters for the flight observer: the pressure Kalman filter keeps the last altitude
  and reports the difference quotient, the GNSS Kalman filter keeps the measured
  velocity and acceleration, the horizontal filter moves its velocity half way to the
  measurement, the differentiator keeps its last input.
\<close>

definition example_filters :: "(real, real \<times> real, real \<times> real, real, real, float3vector, unit) filters" where
  "example_filters =
     \<lparr>KalmanVario_update = (\<lambda>k altitude acc. ((altitude - k) * 100, altitude)),
      KalmanVario_PVA_update = (\<lambda>k altitude velocity acc. (velocity, (velocity, acc))),
      KalmanVario_PVA_get_x = (\<lambda>k c. case c of ALTITUDE \<Rightarrow> 0 | VARIO \<Rightarrow> fst k
                                        | ACCELERATION_OBSERVED \<Rightarrow> snd k),
      Kalman_V_A_Aoff_update = (\<lambda>k velocity acc. ((fst k + velocity) / 2, acc)),
      Kalman_V_A_Aoff_get_x = (\<lambda>k c. case c of VELOCITY \<Rightarrow> fst k | ACCELERATION \<Rightarrow> snd k
                                        | ACCELERATION_OFFSET \<Rightarrow> 0),
      differentiator_respond = (\<lambda>d x. ((x - d) * 100, x)),
      vario_averager_respond = (\<lambda>a x. (a + x) / 2),
      decimator_respond = (\<lambda>w v. v),
      fusioner_respond = (\<lambda>f fast slow. ((fast + slow) / 2, f))\<rparr>"

definition example_flight_observer ::
  "(real, real \<times> real, real \<times> real, real, real, float3vector, unit) flight_observer_t" where
  "example_flight_observer =
     \<lparr>KalmanVario_pressure = 500, KalmanVario_GNSS = (0, 0),
      Kalman_v_a_observer_N = (0, 0), Kalman_v_a_observer_E = (0, 0),
      kinetic_energy_differentiator = 0, specific_energy_differentiator = 0,
      vario_averager_pressure = 0, vario_averager_GNSS = 0,
      windspeed_decimator_100Hz_10Hz = float3vector 0 0 0,
      GNSS_INS_speedcomp_fusioner = (),
      vario_uncompensated_pressure = 0, vario_uncompensated_GNSS = 7,
      speed_compensation_IAS = 0, speed_compensation_GNSS = 7,
      speed_compensation_INS_GNSS_1 = 0, speed_compensation_kalman_2 = 0,
      speed_compensation_energy_3 = 0, specific_energy = 0,
      vertical_energy_tuning_factor = 1\<rparr>"

text \<open>
  Two machines. On the first an out-of-range cast saturates, as the conversion
  instruction of the ARM floating point unit does; on the second it delivers the least
  \<^verbatim>\<open>int32_t\<close>, as the conversion instruction of x86 does. On both, a read outside the
  table \<^verbatim>\<open>HEX\<close> finds a question mark.
\<close>

definition saturating_machine :: machine where
  "saturating_machine =
     \<lparr>out_of_range_cast = (\<lambda>x. if x < 0 then - (2 ^ 31) else 2 ^ 31 - 1),
      HEX_outside = (\<lambda>i. CHR ''?'')\<rparr>"

definition indefinite_machine :: machine where
  "indefinite_machine =
     \<lparr>out_of_range_cast = (\<lambda>x. - (2 ^ 31)), HEX_outside = (\<lambda>i. CHR ''?'')\<rparr>"

section \<open>Reference definitions for the formatter\<close>

text \<open>
  The checksum as the specification words it: the 8-bit exclusive or of all bytes of the
  sentence body, written as two upper-case hexadecimal digits. These two definitions
  follow the specification, not the code; the code is compared with them below.
\<close>

definition spec_checksum :: "string \<Rightarrow> 8 word" where
  "spec_checksum body = fold (\<lambda>c x. x XOR of_char c) body 0"

definition spec_hex_digits :: "8 word \<Rightarrow> string" where
  "spec_hex_digits x =
     [''0123456789ABCDEF'' ! (unat x div 16), ''0123456789ABCDEF'' ! (unat x mod 16)]"

text \<open>
  Reading a number: the value of a string of decimal digits. The definition does not
  mention \<open>format_integer\<close>; the digits the code writes are read back with it.
\<close>

definition digit_value :: "char \<Rightarrow> nat" where
  "digit_value c = of_char c - 48"

definition decimal_value :: "string \<Rightarrow> nat" where
  "decimal_value ds = foldl (\<lambda>v c. 10 * v + digit_value c) 0 ds"

text \<open>
  The value of the variable \<^verbatim>\<open>heading\<close> of \<^verbatim>\<open>format_HCHDT\<close> after the statement that adds
  3600 to a negative value, in tenths of a degree, when the cast is in range.
\<close>

definition wrapped_heading :: "real \<Rightarrow> int" where
  "wrapped_heading true_heading =
     (let heading = truncate_towards_zero (float32_mul true_heading 573)
      in if heading < 0 then heading + 3600 else heading)"

section \<open>Properties of the formatter\<close>

text \<open>The equations that evaluate the formatter at a given input.\<close>

lemmas evaluation_defs =
  float32_mul_def float32_round_def
  float32_exponent_def float32_exponent_search.simps round_nearest_even_def float_to_int_def
  truncate_towards_zero_def integer_to_ascii_2_decimals_def integer_to_ascii_1_decimal_def
  int32_of_def uint32_of_def c_div_def c_mod_def HEX_at_def HEX_def
  saturating_machine_def indefinite_machine_def format_integer.simps char_of_def bit_0 Let_def

subsection \<open>Rounding to float\<close>

lemma float32_exponent_search_ge: "- 126 \<le> float32_exponent_search x k"
  by (induction x k rule: float32_exponent_search.induct)
     (subst float32_exponent_search.simps, simp)

lemma float32_exponent_search_hit:
  "- 126 < float32_exponent_search x k \<Longrightarrow> 2 powi (float32_exponent_search x k) \<le> \<bar>x\<bar>"
proof (induction x k rule: float32_exponent_search.induct)
  case (1 x k)
  show ?case
  proof (cases "k \<le> - 126")
    case True
    with "1.prems" show ?thesis by (simp add: float32_exponent_search.simps [of x k])
  next
    case False
    show ?thesis
    proof (cases "2 powi k \<le> \<bar>x\<bar>")
      case True
      with False show ?thesis by (simp add: float32_exponent_search.simps [of x k])
    next
      case hit: False
      with False "1.prems" "1.IH" show ?thesis
        by (simp add: float32_exponent_search.simps [of x k])
    qed
  qed
qed

lemma float32_exponent_search_upper:
  "\<bar>x\<bar> < 2 powi (j + 1) \<Longrightarrow> - 126 \<le> j \<Longrightarrow> float32_exponent_search x k \<le> j"
proof (induction x k rule: float32_exponent_search.induct)
  case (1 x k)
  show ?case
  proof (cases "k \<le> - 126")
    case True
    with "1.prems" show ?thesis by (simp add: float32_exponent_search.simps [of x k])
  next
    case False
    show ?thesis
    proof (cases "2 powi k \<le> \<bar>x\<bar>")
      case True
      have "k \<le> j"
      proof (rule ccontr)
        assume "\<not> k \<le> j"
        then have "j + 1 \<le> k" by simp
        then have "(2::real) powi (j + 1) \<le> 2 powi k" by (rule power_int_increasing) simp
        with True "1.prems"(1) show False by linarith
      qed
      with False True show ?thesis by (simp add: float32_exponent_search.simps [of x k])
    next
      case miss: False
      with False "1.prems" "1.IH" show ?thesis
        by (simp add: float32_exponent_search.simps [of x k])
    qed
  qed
qed

lemma round_nearest_even_error: "\<bar>of_int (round_nearest_even q) - q\<bar> \<le> 1 / 2"
proof -
  have "of_int \<lfloor>q\<rfloor> \<le> q" and "q < of_int \<lfloor>q\<rfloor> + 1" by linarith+
  then show ?thesis by (auto simp: round_nearest_even_def Let_def)
qed

lemma float32_round_error:
  "\<bar>float32_round x - x\<bar> \<le> 2 powi (float32_exponent x - 24)"
proof -
  define u :: real where "u = 2 powi (float32_exponent x - 23)"
  have u: "0 < u" by (simp add: u_def)
  have half: "u / 2 = 2 powi (float32_exponent x - 24)"
    using power_int_diff [of "2::real" "float32_exponent x - 23" 1] by (simp add: u_def)
  have "float32_round x - x = u * (of_int (round_nearest_even (x / u)) - x / u)"
    using u by (simp add: float32_round_def Let_def u_def [symmetric] algebra_simps)
  then have "\<bar>float32_round x - x\<bar> = u * \<bar>of_int (round_nearest_even (x / u)) - x / u\<bar>"
    using u by (simp add: abs_mult)
  also have "\<dots> \<le> u * (1 / 2)"
    using u round_nearest_even_error [of "x / u"] by (intro mult_left_mono) simp_all
  finally show ?thesis using half by simp
qed

lemma float32_round_near:
  assumes "\<bar>x\<bar> < 2 powi (j + 1)" and "- 126 \<le> j"
  shows "\<bar>float32_round x - x\<bar> \<le> 2 powi (j - 24)"
proof -
  have "float32_exponent x \<le> j"
    unfolding float32_exponent_def using assms by (rule float32_exponent_search_upper)
  then have "(2::real) powi (float32_exponent x - 24) \<le> 2 powi (j - 24)"
    by (intro power_int_increasing) simp_all
  with float32_round_error [of x] show ?thesis by linarith
qed

subsection \<open>Decimal digits\<close>

lemma char_of_digit: "k < 10 \<Longrightarrow> char_of (k + 48) = ''0123456789'' ! k"
proof -
  assume "k < 10"
  then have "k \<in> {0, 1, 2, 3, 4, 5, 6, 7, 8, 9}" by auto
  then show ?thesis by (auto simp: char_of_def bit_0)
qed

lemma digit_in_digits: "k < 10 \<Longrightarrow> ''0123456789'' ! k \<in> set ''0123456789''"
  by (rule nth_mem) simp

lemma HEX_digit: "k < 10 \<Longrightarrow> HEX ! k = char_of (k + 48)"
proof -
  assume "k < 10"
  then have "k \<in> {0, 1, 2, 3, 4, 5, 6, 7, 8, 9}" by auto
  then show ?thesis by (auto simp: HEX_def char_of_def bit_0)
qed

lemma digit_value_char_of: "k < 10 \<Longrightarrow> digit_value (char_of (k + 48)) = k"
  by (simp add: digit_value_def)

lemma char_of_digit_zero: "(k::nat) < 10 \<Longrightarrow> char_of (k + 48) = CHR ''0'' \<Longrightarrow> k = 0"
proof -
  assume "k < 10" and z: "char_of (k + 48) = CHR ''0''"
  from \<open>k < 10\<close> have "digit_value (char_of (k + 48)) = k" by (rule digit_value_char_of)
  then have "digit_value (CHR ''0'') = k" by (simp only: z)
  then show ?thesis by (simp add: digit_value_def)
qed

lemma format_integer_digit: "val < 10 \<Longrightarrow> format_integer val = [char_of (val + 48)]"
  by (simp add: format_integer.simps [of val])

lemma format_integer_split:
  "\<not> val < 10 \<Longrightarrow> format_integer val = format_integer (val div 10) @ [char_of (val mod 10 + 48)]"
  by (simp add: format_integer.simps [of val] format_integer_digit)

lemma format_integer_not_empty: "format_integer val \<noteq> []"
  by (cases "val < 10") (simp_all add: format_integer_digit format_integer_split)

lemma format_integer_digits: "set (format_integer val) \<subseteq> set ''0123456789''"
proof (induction val rule: format_integer.induct)
  case (1 val)
  show ?case
  proof (cases "val < 10")
    case True
    with digit_in_digits [OF True] show ?thesis
      by (simp add: format_integer_digit char_of_digit)
  next
    case False
    have "val mod 10 < 10" by simp
    from digit_in_digits [OF this] False "1.IH"(1) show ?thesis
      by (simp add: format_integer_split char_of_digit)
  qed
qed

lemma decimal_value_snoc: "decimal_value (ds @ [c]) = 10 * decimal_value ds + digit_value c"
  by (simp add: decimal_value_def)

lemma decimal_value_snoc2:
  "decimal_value (ds @ [a, b]) = 100 * decimal_value ds + 10 * digit_value a + digit_value b"
  by (simp add: decimal_value_def)

lemma decimal_value_format_integer: "decimal_value (format_integer val) = val"
proof (induction val rule: format_integer.induct)
  case (1 val)
  show ?case
  proof (cases "val < 10")
    case True
    then show ?thesis
      by (simp add: format_integer_digit decimal_value_def digit_value_char_of)
  next
    case False
    with "1.IH"(1) show ?thesis
      by (simp add: format_integer_split decimal_value_snoc digit_value_char_of)
  qed
qed

lemma format_integer_leading_zero:
  "hd (format_integer val) = CHR ''0'' \<Longrightarrow> format_integer val = ''0''"
proof (induction val rule: format_integer.induct)
  case (1 val)
  show ?case
  proof (cases "val < 10")
    case True
    with "1.prems" have "val = 0"
      by (simp add: format_integer_digit char_of_digit_zero)
    then show ?thesis by (simp add: format_integer_digit char_of_def bit_0)
  next
    case False
    with "1.prems" have "hd (format_integer (val div 10)) = CHR ''0''"
      by (simp add: format_integer_split format_integer_not_empty)
    with False "1.IH"(1) have "format_integer (val div 10) = ''0''" by simp
    then have "decimal_value (format_integer (val div 10)) = 0"
      by (simp add: decimal_value_def digit_value_def)
    then have "val div 10 = 0" by (simp add: decimal_value_format_integer)
    with False show ?thesis by simp
  qed
qed

subsection \<open>The conversions on values in range\<close>

lemma float_to_int_in_range:
  "- (2 ^ 31) \<le> truncate_towards_zero x \<Longrightarrow> truncate_towards_zero x \<le> 2 ^ 31 - 1
   \<Longrightarrow> float_to_int M x = truncate_towards_zero x"
  by (simp add: float_to_int_def Let_def)

lemma c_div_nonneg: "0 \<le> a \<Longrightarrow> 0 < b \<Longrightarrow> c_div a b = a div b"
  by (cases "a = 0") (simp_all add: c_div_def)

lemma c_mod_nonneg: "0 \<le> a \<Longrightarrow> 0 < b \<Longrightarrow> c_mod a b = a mod b"
  by (simp add: c_mod_def c_div_nonneg minus_mult_div_eq_mod)

lemma HEX_at_digit: "0 \<le> i \<Longrightarrow> i < 10 \<Longrightarrow> HEX_at M i = char_of (nat i + 48)"
  by (simp add: HEX_at_def HEX_digit)

lemma integer_to_ascii_1_decimal_nonneg:
  assumes "0 \<le> k" and "k < 2 ^ 31"
  shows "integer_to_ascii_1_decimal M k
           = format_integer (nat (k div 10)) @ ''.'' @ [char_of (nat (k mod 10) + 48)]"
proof -
  have "k div 10 mod 2 ^ 32 = k div 10"
    using assms by (intro mod_pos_pos_trivial) simp_all
  then show ?thesis
    using assms
    by (simp add: integer_to_ascii_1_decimal_def Let_def c_div_nonneg c_mod_nonneg uint32_of_def
          HEX_at_digit)
qed

lemma integer_to_ascii_2_decimals_nonneg:
  assumes "0 \<le> k" and "k < 2 ^ 31"
  shows "integer_to_ascii_2_decimals M k
           = format_integer (nat (k div 100)) @ ''.''
             @ [char_of (nat (k div 10 mod 10) + 48), char_of (nat (k mod 10) + 48)]"
proof -
  have "k div 100 mod 2 ^ 32 = k div 100"
    using assms by (intro mod_pos_pos_trivial) simp_all
  then show ?thesis
    using assms
    by (simp add: integer_to_ascii_2_decimals_def Let_def c_div_nonneg c_mod_nonneg uint32_of_def
          HEX_at_digit pos_imp_zdiv_nonneg_iff)
qed

lemma one_decimal_digits:
  assumes "0 \<le> k"
  shows "set (format_integer (nat (k div 10)) @ [char_of (nat (k mod 10) + 48)])
           \<subseteq> set ''0123456789''"
    and "decimal_value (format_integer (nat (k div 10)) @ [char_of (nat (k mod 10) + 48)]) = nat k"
proof -
  have d: "nat (k mod 10) < 10" by simp
  from digit_in_digits [OF d] format_integer_digits [of "nat (k div 10)"]
  show "set (format_integer (nat (k div 10)) @ [char_of (nat (k mod 10) + 48)])
           \<subseteq> set ''0123456789''"
    by (simp add: char_of_digit [OF d])
  have "0 \<le> k div 10" using assms by simp
  then have "int (10 * nat (k div 10) + nat (k mod 10)) = k" by simp
  then have "nat (int (10 * nat (k div 10) + nat (k mod 10))) = nat k" by (simp only:)
  then have "10 * nat (k div 10) + nat (k mod 10) = nat k" by (simp only: nat_int)
  then show "decimal_value (format_integer (nat (k div 10)) @ [char_of (nat (k mod 10) + 48)]) = nat k"
    by (simp add: decimal_value_snoc decimal_value_format_integer digit_value_char_of [OF d])
qed

lemma two_decimals_digits:
  assumes "0 \<le> k"
  shows "set (format_integer (nat (k div 100))
              @ [char_of (nat (k div 10 mod 10) + 48), char_of (nat (k mod 10) + 48)])
           \<subseteq> set ''0123456789''"
    and "decimal_value (format_integer (nat (k div 100))
              @ [char_of (nat (k div 10 mod 10) + 48), char_of (nat (k mod 10) + 48)]) = nat k"
proof -
  have d: "nat (k div 10 mod 10) < 10" "nat (k mod 10) < 10" by simp_all
  from digit_in_digits [OF d(1)] digit_in_digits [OF d(2)]
    format_integer_digits [of "nat (k div 100)"]
  show "set (format_integer (nat (k div 100))
              @ [char_of (nat (k div 10 mod 10) + 48), char_of (nat (k mod 10) + 48)])
           \<subseteq> set ''0123456789''"
    by (simp add: char_of_digit [OF d(1)] char_of_digit [OF d(2)])
  have "k div 100 = k div 10 div 10" by (simp add: zdiv_zmult2_eq)
  then have "100 * (k div 100) + 10 * (k div 10 mod 10) + k mod 10 = k" by presburger
  moreover have "0 \<le> k div 100" using assms by simp
  ultimately have "int (100 * nat (k div 100) + 10 * nat (k div 10 mod 10) + nat (k mod 10)) = k"
    by simp
  then have "nat (int (100 * nat (k div 100) + 10 * nat (k div 10 mod 10) + nat (k mod 10))) = nat k"
    by (simp only:)
  then have "100 * nat (k div 100) + 10 * nat (k div 10 mod 10) + nat (k mod 10) = nat k"
    by (simp only: nat_int)
  then show "decimal_value (format_integer (nat (k div 100))
              @ [char_of (nat (k div 10 mod 10) + 48), char_of (nat (k mod 10) + 48)]) = nat k"
    by (simp only: decimal_value_snoc2 decimal_value_format_integer digit_value_char_of [OF d(1)]
          digit_value_char_of [OF d(2)])
qed

subsection \<open>Checksum\<close>

lemma unat_high_nibble: "unat (drop_bit 4 (x :: 8 word)) = unat x div 16"
  by (simp add: drop_bit_eq_div unat_div)

lemma unat_low_nibble: "unat ((x :: 8 word) AND 0x0f) = unat x mod 16"
proof -
  have "x AND 0x0f = take_bit 4 x"
    using take_bit_eq_mask [of 4 x] by (simp add: mask_eq_exp_minus_1)
  then show ?thesis by (simp add: take_bit_eq_mod unat_mod)
qed

lemma hex4_nibbles:
  "hex4 (drop_bit 4 x) = ''0123456789ABCDEF'' ! (unat x div 16)"
  "hex4 (x AND 0x0f) = ''0123456789ABCDEF'' ! (unat x mod 16)"
  by (simp_all add: hex4_def HEX_def unat_high_nibble unat_low_nibble)

lemma hex4_digits:
  "[hex4 (drop_bit 4 x), hex4 (x AND 0x0f)] = spec_hex_digits x"
  by (simp add: hex4_nibbles spec_hex_digits_def)

lemma checksum_loop_body:
  assumes "CHR 0x00 \<notin> set body" and "CHR ''*'' \<notin> set body"
    and "rest = [] \<or> hd rest = CHR ''*'' \<or> hd rest = CHR 0x00"
  shows "checksum_loop (front @ body @ rest) (length front) x =
           (length front + length body, fold (\<lambda>c x. x XOR of_char c) body x)"
  using assms
proof (induction body arbitrary: front x)
  case Nil
  then show ?case
    by (cases rest) (auto simp: checksum_loop.simps [of _ "length front"] c_at_def nth_append)
next
  case (Cons c body)
  have step: "checksum_loop (front @ (c # body) @ rest) (length front) x =
        checksum_loop ((front @ [c]) @ body @ rest) (length (front @ [c])) (x XOR of_char c)"
    using Cons.prems by (subst checksum_loop.simps) (auto simp: c_at_def nth_append)
  show ?case
    unfolding step using Cons.prems by (subst Cons.IH) auto
qed

lemma checksum_loop_sentence:
  assumes "CHR 0x00 \<notin> set body" and "CHR ''*'' \<notin> set body"
    and "rest = [] \<or> hd rest = CHR ''*'' \<or> hd rest = CHR 0x00"
  shows "checksum_loop (CHR ''$'' # body @ rest) 1 0 = (1 + length body, spec_checksum body)"
  using checksum_loop_body [OF assms, of "[CHR ''$'']" 0] by (simp add: spec_checksum_def)

subsection \<open>Checksum round trip\<close>

text \<open>
  C8, as stated: every sentence that \<^verbatim>\<open>NMEA_append_tail\<close> emits passes \<^verbatim>\<open>NMEA_checksum\<close>.
  This fails for the sentence that \<^verbatim>\<open>format_HCHDT\<close> writes for a yaw of -0.01 rad: the tail
  appended is \<open>*23\<close>, carriage return, line feed, and \<^verbatim>\<open>NMEA_checksum\<close> rejects the result,
  because it requires the string to end directly after the two checksum digits.
\<close>

theorem NMEA_round_trip_counterexample:
  "format_HCHDT saturating_machine (-0.01) = ''$HCHDT,359.5,T''
   \<and> NMEA_append_tail ''$HCHDT,359.5,T'' = Some (''$HCHDT,359.5,T*23'' @ [CHR 0x0D, CHR 0x0A])
   \<and> \<not> NMEA_checksum (''$HCHDT,359.5,T*23'' @ [CHR 0x0D, CHR 0x0A])"
proof (intro conjI)
  show "format_HCHDT saturating_machine (-0.01) = ''$HCHDT,359.5,T''"
    by (simp add: format_HCHDT_def HCHDT_def evaluation_defs)
  show "NMEA_append_tail ''$HCHDT,359.5,T'' = Some (''$HCHDT,359.5,T*23'' @ [CHR 0x0D, CHR 0x0A])"
    by (simp add: NMEA_append_tail_def c_at_def checksum_loop.simps hex4_def HEX_def)
  show "\<not> NMEA_checksum (''$HCHDT,359.5,T*23'' @ [CHR 0x0D, CHR 0x0A])"
    by (simp add: NMEA_checksum_def c_at_def checksum_loop.simps hex4_def HEX_def)
qed

lemma c_at_sentence:
  "c_at (CHR ''$'' # body @ rest) (Suc (length body) + k) = c_at rest k"
  by (simp add: c_at_def nth_append)

lemma NMEA_checksum_sentence:
  assumes "CHR 0x00 \<notin> set body" and "CHR ''*'' \<notin> set body"
  shows "NMEA_checksum (CHR ''$'' # body @ CHR ''*'' # h # l # rest)
           \<longleftrightarrow> [h, l] = spec_hex_digits (spec_checksum body) \<and> c_at rest 0 = CHR 0x00"
proof -
  have loop: "checksum_loop (CHR ''$'' # body @ CHR ''*'' # h # l # rest) (Suc 0) 0
          = (Suc (length body), spec_checksum body)"
    using checksum_loop_sentence [OF assms, of "CHR ''*'' # h # l # rest"] by simp
  have at: "c_at (CHR ''$'' # body @ CHR ''*'' # h # l # rest) (Suc (length body)) = CHR ''*''"
      "c_at (CHR ''$'' # body @ CHR ''*'' # h # l # rest) (Suc (Suc (length body))) = h"
      "c_at (CHR ''$'' # body @ CHR ''*'' # h # l # rest) (Suc (Suc (Suc (length body)))) = l"
      "c_at (CHR ''$'' # body @ CHR ''*'' # h # l # rest) (Suc (Suc (Suc (Suc (length body)))))
         = c_at rest 0"
    by (simp_all add: c_at_def nth_append)
  have first: "c_at (CHR ''$'' # body @ CHR ''*'' # h # l # rest) 0 = CHR ''$''"
    by (simp add: c_at_def)
  show ?thesis
    by (auto simp: NMEA_checksum_def first loop at numeral_3_eq_3 hex4_nibbles
          spec_hex_digits_def)
qed

text \<open>
  C8, amended: for every buffer that begins with a dollar sign and whose body contains
  neither an asterisk nor a NUL byte, \<^verbatim>\<open>NMEA_append_tail\<close> appends an asterisk, the 8-bit
  exclusive or of the body as two upper-case hexadecimal digits, carriage return and
  line feed. \<^verbatim>\<open>NMEA_checksum\<close> accepts the sentence up to and including the two digits, and
  rejects the sentence with the carriage return and line feed still attached.
\<close>

theorem NMEA_append_tail_checksum:
  assumes "CHR ''*'' \<notin> set body" and "CHR 0x00 \<notin> set body"
  shows "NMEA_append_tail (CHR ''$'' # body)
           = Some (CHR ''$'' # body @ ''*'' @ spec_hex_digits (spec_checksum body)
                   @ [CHR 0x0D, CHR 0x0A])
       \<and> NMEA_checksum (CHR ''$'' # body @ ''*'' @ spec_hex_digits (spec_checksum body))
       \<and> \<not> NMEA_checksum (CHR ''$'' # body @ ''*'' @ spec_hex_digits (spec_checksum body)
                           @ [CHR 0x0D, CHR 0x0A])"
proof (intro conjI)
  have "checksum_loop (CHR ''$'' # body) (Suc 0) 0 = (Suc (length body), spec_checksum body)"
    using checksum_loop_sentence [OF assms(2) assms(1), of "[]"] by simp
  then show "NMEA_append_tail (CHR ''$'' # body)
           = Some (CHR ''$'' # body @ ''*'' @ spec_hex_digits (spec_checksum body)
                   @ [CHR 0x0D, CHR 0x0A])"
    using hex4_digits [of "spec_checksum body"] by (simp add: NMEA_append_tail_def c_at_def)
next
  show "NMEA_checksum (CHR ''$'' # body @ ''*'' @ spec_hex_digits (spec_checksum body))"
    using NMEA_checksum_sentence [OF assms(2) assms(1),
        of "''0123456789ABCDEF'' ! (unat (spec_checksum body) div 16)"
           "''0123456789ABCDEF'' ! (unat (spec_checksum body) mod 16)" "[]"]
    by (simp add: spec_hex_digits_def c_at_def)
next
  show "\<not> NMEA_checksum (CHR ''$'' # body @ ''*'' @ spec_hex_digits (spec_checksum body)
                           @ [CHR 0x0D, CHR 0x0A])"
    using NMEA_checksum_sentence [OF assms(2) assms(1),
        of "''0123456789ABCDEF'' ! (unat (spec_checksum body) div 16)"
           "''0123456789ABCDEF'' ! (unat (spec_checksum body) mod 16)" "[CHR 0x0D, CHR 0x0A]"]
    by (simp add: spec_hex_digits_def c_at_def)
qed

text \<open>The amended C8 at the body of the \$HCHDT sentence above.\<close>

theorem NMEA_append_tail_checksum_witness:
  "CHR ''*'' \<notin> set ''HCHDT,359.5,T'' \<and> CHR 0x00 \<notin> set ''HCHDT,359.5,T''
   \<and> NMEA_append_tail ''$HCHDT,359.5,T'' = Some (''$HCHDT,359.5,T*23'' @ [CHR 0x0D, CHR 0x0A])
   \<and> NMEA_checksum ''$HCHDT,359.5,T*23''"
proof -
  have h: "CHR ''*'' \<notin> set ''HCHDT,359.5,T''" "CHR 0x00 \<notin> set ''HCHDT,359.5,T''"
    by simp_all
  have d: "spec_hex_digits (spec_checksum ''HCHDT,359.5,T'') = ''23''"
    by (simp add: spec_hex_digits_def spec_checksum_def)
  show ?thesis
    using h NMEA_append_tail_checksum [OF h] by (simp add: d)
qed

subsection \<open>The heading of \$HCHDT\<close>

lemma truncate_towards_zero_bounds:
  assumes "\<bar>x\<bar> < of_int b"
  shows "- b < truncate_towards_zero x" and "truncate_towards_zero x < b"
proof -
  have b: "0 < b"
  proof -
    have "(0::real) < of_int b" using assms by linarith
    then show ?thesis by simp
  qed
  show "- b < truncate_towards_zero x"
  proof (cases "x < 0")
    case True
    have "of_int (- b) < x" using assms by simp
    also have "x \<le> of_int \<lceil>x\<rceil>" by (rule le_of_int_ceiling)
    finally have "- b < \<lceil>x\<rceil>" by (simp only: of_int_less_iff)
    with True show ?thesis by (simp add: truncate_towards_zero_def)
  next
    case False
    then have "0 \<le> \<lfloor>x\<rfloor>" by simp
    with b have "- b < \<lfloor>x\<rfloor>" by linarith
    with False show ?thesis by (simp add: truncate_towards_zero_def)
  qed
  show "truncate_towards_zero x < b"
  proof (cases "x < 0")
    case True
    then have "\<lceil>x\<rceil> \<le> 0" by (simp add: ceiling_le_zero)
    with b have "\<lceil>x\<rceil> < b" by linarith
    with True show ?thesis by (simp add: truncate_towards_zero_def)
  next
    case False
    have "of_int \<lfloor>x\<rfloor> \<le> x" by (rule of_int_floor_le)
    also have "x < of_int b" using assms by simp
    finally have "\<lfloor>x\<rfloor> < b" by (simp only: of_int_less_iff)
    with False show ?thesis by (simp add: truncate_towards_zero_def)
  qed
qed

lemma heading_product_bound:
  assumes "- pi < true_heading" and "true_heading \<le> pi"
  shows "\<bar>float32_mul true_heading 573\<bar> < 2293"
proof -
  have "\<bar>true_heading\<bar> < 4" using assms pi_less_4 by linarith
  then have p: "\<bar>true_heading * 573\<bar> < 2292" by (simp add: abs_mult)
  then have "\<bar>true_heading * 573\<bar> < 2 powi (11 + 1)" by simp
  then have "\<bar>float32_round (true_heading * 573) - true_heading * 573\<bar> \<le> 2 powi (11 - 24)"
    by (rule float32_round_near) simp
  then have "\<bar>float32_round (true_heading * 573) - true_heading * 573\<bar> \<le> 1" by simp
  with p show ?thesis unfolding float32_mul_def by linarith
qed

text \<open>
  C9: for every \<open>true_heading\<close> in the half-open interval from \<open>- pi\<close> to \<open>pi\<close>, on every
  machine, the heading that \<^verbatim>\<open>format_HCHDT\<close> emits is in the range from 0 to 360.0 degrees,
  360.0 excluded. The variable \<^verbatim>\<open>heading\<close>, the truncated \<^verbatim>\<open>float\<close> product with 573 plus
  3600 if that is negative, is at least 0 and below 3600 tenths of a degree. The sentence
  is \<open>$HCHDT,\<close>, a string of digits, a point, one digit and \<open>,T\<close>; there is at least one
  digit before the point and no leading zero unless the string is \<open>0\<close>, and the digits,
  read as a decimal number, are the value of \<^verbatim>\<open>heading\<close>, so the field has no sign and
  reads as \<^verbatim>\<open>heading\<close> divided by ten. For a yaw of -0.01 rad the sentence is
  \<open>$HCHDT,359.5,T\<close>, both for the real number -0.01 and for the \<^verbatim>\<open>float\<close> nearest to it:
  the product, about -5.73, is truncated towards zero to -5 before 3600 is added, so the
  value is 3595 tenths, less than one tenth of a degree from 3594.3.
\<close>

theorem format_HCHDT_range:
  assumes "- pi < true_heading" and "true_heading \<le> pi"
  shows "0 \<le> wrapped_heading true_heading \<and> wrapped_heading true_heading < 3600
       \<and> (\<exists>ds d.
             format_HCHDT M true_heading = ''$HCHDT,'' @ ds @ ''.'' @ [d] @ '',T''
           \<and> ds \<noteq> [] \<and> set (ds @ [d]) \<subseteq> set ''0123456789''
           \<and> (hd ds = CHR ''0'' \<longrightarrow> ds = ''0'')
           \<and> decimal_value (ds @ [d]) = nat (wrapped_heading true_heading))
       \<and> format_HCHDT M (- 0.01) = ''$HCHDT,359.5,T''
       \<and> wrapped_heading (- 0.01) = 3595
       \<and> float32_round (- 0.01) = - 5368709 / 536870912
       \<and> format_HCHDT M (float32_round (- 0.01)) = ''$HCHDT,359.5,T''
       \<and> \<bar>real_of_int (wrapped_heading (- 0.01)) - 3594.3\<bar> < 1"
proof -
  have "\<bar>float32_mul true_heading 573\<bar> < of_int 2293"
    using heading_product_bound [OF assms] by simp
  from truncate_towards_zero_bounds [OF this]
  have t: "- 2293 < truncate_towards_zero (float32_mul true_heading 573)"
      "truncate_towards_zero (float32_mul true_heading 573) < 2293" by simp_all
  then have fi: "float_to_int M (float32_mul true_heading 573)
      = truncate_towards_zero (float32_mul true_heading 573)"
    by (intro float_to_int_in_range) simp_all
  from t have w: "0 \<le> wrapped_heading true_heading" "wrapped_heading true_heading < 3600"
    by (simp_all add: wrapped_heading_def Let_def)
  then have w31: "wrapped_heading true_heading < 2 ^ 31" by simp
  have f: "format_HCHDT M true_heading
           = ''$HCHDT,'' @ format_integer (nat (wrapped_heading true_heading div 10)) @ ''.''
             @ [char_of (nat (wrapped_heading true_heading mod 10) + 48)] @ '',T''"
    using integer_to_ascii_1_decimal_nonneg [OF w(1) w31, of M]
    by (simp add: format_HCHDT_def fi HCHDT_def wrapped_heading_def Let_def)
  have shape: "\<exists>ds d.
             format_HCHDT M true_heading = ''$HCHDT,'' @ ds @ ''.'' @ [d] @ '',T''
           \<and> ds \<noteq> [] \<and> set (ds @ [d]) \<subseteq> set ''0123456789''
           \<and> (hd ds = CHR ''0'' \<longrightarrow> ds = ''0'')
           \<and> decimal_value (ds @ [d]) = nat (wrapped_heading true_heading)"
    using f format_integer_not_empty [of "nat (wrapped_heading true_heading div 10)"]
      one_decimal_digits [OF w(1)]
      format_integer_leading_zero [of "nat (wrapped_heading true_heading div 10)"]
    by blast
  have e: "format_HCHDT M (- 0.01) = ''$HCHDT,359.5,T''"
    by (simp add: format_HCHDT_def float32_mul_def float32_round_def float32_exponent_def
        float32_exponent_search.simps round_nearest_even_def float_to_int_def
        truncate_towards_zero_def HCHDT_def integer_to_ascii_1_decimal_def Let_def
        c_div_def c_mod_def uint32_of_def HEX_at_def HEX_def
        format_integer.simps char_of_def bit_0)
  have v: "wrapped_heading (- 0.01) = 3595"
    by (simp add: wrapped_heading_def float32_mul_def float32_round_def float32_exponent_def
        float32_exponent_search.simps round_nearest_even_def truncate_towards_zero_def Let_def)
  have r: "float32_round (- 0.01) = - 5368709 / 536870912"
    by (simp add: float32_round_def float32_exponent_def float32_exponent_search.simps
        round_nearest_even_def Let_def)
  have e': "format_HCHDT M (float32_round (- 0.01)) = ''$HCHDT,359.5,T''"
    unfolding r
    by (simp add: format_HCHDT_def float32_mul_def float32_round_def float32_exponent_def
        float32_exponent_search.simps round_nearest_even_def float_to_int_def
        truncate_towards_zero_def HCHDT_def integer_to_ascii_1_decimal_def Let_def
        c_div_def c_mod_def uint32_of_def HEX_at_def HEX_def
        format_integer.simps char_of_def bit_0)
  from w shape e v r e' show ?thesis by simp
qed

text \<open>C9 at a heading of 2 rad on the saturating machine: the sentence is \<open>$HCHDT,114.6,T\<close>.\<close>

theorem format_HCHDT_range_witness:
  "- pi < 2 \<and> 2 \<le> pi
   \<and> 0 \<le> wrapped_heading 2 \<and> wrapped_heading 2 < 3600 \<and> wrapped_heading 2 = 1146
   \<and> format_HCHDT saturating_machine 2 = ''$HCHDT,114.6,T''
   \<and> decimal_value ''1146'' = nat (wrapped_heading 2)"
proof -
  have h: "- pi < 2" "2 \<le> pi"
    using pi_ge_two by simp_all
  have v: "wrapped_heading 2 = 1146"
    by (simp add: wrapped_heading_def float32_mul_def float32_round_def float32_exponent_def
        float32_exponent_search.simps round_nearest_even_def truncate_towards_zero_def Let_def)
  have e: "format_HCHDT saturating_machine 2 = ''$HCHDT,114.6,T''"
    by (simp add: format_HCHDT_def float32_mul_def float32_round_def float32_exponent_def
        float32_exponent_search.simps round_nearest_even_def float_to_int_def
        truncate_towards_zero_def HCHDT_def integer_to_ascii_1_decimal_def Let_def
        c_div_def c_mod_def uint32_of_def HEX_at_def HEX_def
        format_integer.simps char_of_def bit_0)
  have d: "decimal_value ''1146'' = nat (wrapped_heading 2)"
    by (simp add: v decimal_value_def digit_value_def)
  from format_HCHDT_range [OF h, of saturating_machine] h v e d show ?thesis by simp
qed

subsection \<open>The pitot field of \$POV\<close>

lemma format_POV_sentence:
  "format_POV M TAS pabs pitot TEK_vario voltage airdata_available humidity temperature
     = ''$POV,E,'' @ integer_to_ascii_2_decimals M (float_to_int M (float32_mul TEK_vario 100))
       @ '',P,'' @ integer_to_ascii_2_decimals M (float_to_int M pabs)
       @ '',R,'' @ integer_to_ascii_2_decimals M (float_to_int M (if pitot < 0 then 0 else pitot))
       @ '',S,'' @ integer_to_ascii_2_decimals M (float_to_int M (float32_mul TAS 360))
       @ '',V,'' @ integer_to_ascii_1_decimal M (float_to_int M (float32_mul voltage 10))
       @ (if airdata_available
          then '',H,''
               @ integer_to_ascii_2_decimals M (float_to_int M (float32_mul humidity 100))
               @ '',T,''
               @ integer_to_ascii_2_decimals M (float_to_int M (float32_mul temperature 100))
          else [])"
  by (simp add: format_POV_def POV_def Let_def)

text \<open>
  C10, as stated: for every value of \<open>pitot\<close> the field after \<open>,R,\<close> is \<open>0.00\<close> or the
  rendering of a value that is not negative, the mechanism being a clamp and no range
  check. This fails at a pitot pressure of 3000000000 Pa, which is a \<^verbatim>\<open>float\<close>: the clamp
  does not apply, the cast \<^verbatim>\<open>(int) pitot\<close> is out of range, and the field is whatever the
  machine makes of it. On the saturating machine the field is \<open>21474836.47\<close>, which is not
  the pressure; on the machine that delivers the least \<^verbatim>\<open>int32_t\<close> the field begins with a
  minus sign, and its last two bytes are read outside the table \<^verbatim>\<open>HEX\<close>.
\<close>

theorem format_POV_pitot_counterexample:
  "format_POV saturating_machine 30 95000 3000000000 1.5 12.3 False 0 0
     = ''$POV,E,1.50,P,950.00,R,21474836.47,S,108.00,V,12.3''
   \<and> format_POV indefinite_machine 30 95000 3000000000 1.5 12.3 False 0 0
     = ''$POV,E,1.50,P,950.00,R,-4273492460.??,S,108.00,V,12.3''
   \<and> decimal_value ''2147483647'' \<noteq> nat \<lfloor>3000000000 :: real\<rfloor>"
proof (intro conjI)
  show "format_POV saturating_machine 30 95000 3000000000 1.5 12.3 False 0 0
     = ''$POV,E,1.50,P,950.00,R,21474836.47,S,108.00,V,12.3''"
    unfolding format_POV_sentence by (simp add: evaluation_defs)
  show "format_POV indefinite_machine 30 95000 3000000000 1.5 12.3 False 0 0
     = ''$POV,E,1.50,P,950.00,R,-4273492460.??,S,108.00,V,12.3''"
    unfolding format_POV_sentence by (simp add: evaluation_defs)
  show "decimal_value ''2147483647'' \<noteq> nat \<lfloor>3000000000 :: real\<rfloor>"
    by (simp add: decimal_value_def digit_value_def)
qed

text \<open>
  C10, amended: for every \<open>pitot\<close> below \<open>2 ^ 31\<close>, on every machine and for all other
  arguments, \<^verbatim>\<open>format_POV\<close> writes \<open>$POV,E,\<close>, the field of the vario, \<open>,P,\<close>, the field of
  the static pressure, \<open>,R,\<close>, a string of digits, a point, two digits and \<open>,S,\<close>. There
  is at least one digit before the point and no leading zero unless the string is \<open>0\<close>.
  The digits, read as a decimal number, are 0 for a negative \<open>pitot\<close> and the integer part of
  \<open>pitot\<close> otherwise: the field has no sign, and it is \<open>0.00\<close> for a negative \<open>pitot\<close>.
\<close>

theorem format_POV_pitot_field:
  assumes "pitot < 2 ^ 31"
  shows "\<exists>ds d1 d2 rest.
           format_POV M TAS pabs pitot TEK_vario voltage airdata_available humidity temperature
             = ''$POV,E,''
               @ integer_to_ascii_2_decimals M (float_to_int M (float32_mul TEK_vario 100))
               @ '',P,'' @ integer_to_ascii_2_decimals M (float_to_int M pabs)
               @ '',R,'' @ ds @ ''.'' @ [d1, d2] @ '',S,'' @ rest
         \<and> ds \<noteq> [] \<and> set (ds @ [d1, d2]) \<subseteq> set ''0123456789''
         \<and> (hd ds = CHR ''0'' \<longrightarrow> ds = ''0'')
         \<and> decimal_value (ds @ [d1, d2]) = (if pitot < 0 then 0 else nat \<lfloor>pitot\<rfloor>)
         \<and> (pitot < 0 \<longrightarrow> ds @ ''.'' @ [d1, d2] = ''0.00'')"
proof -
  define k where "k = truncate_towards_zero (if pitot < 0 then 0 else pitot)"
  have k0: "0 \<le> k" by (simp add: k_def truncate_towards_zero_def)
  have kv: "nat k = (if pitot < 0 then 0 else nat \<lfloor>pitot\<rfloor>)"
    by (simp add: k_def truncate_towards_zero_def)
  have "\<lfloor>pitot\<rfloor> < 2 ^ 31" using assms by (simp add: floor_less_iff)
  then have k31: "k < 2 ^ 31" by (simp add: k_def truncate_towards_zero_def)
  then have cast: "float_to_int M (if pitot < 0 then 0 else pitot) = k"
    unfolding k_def using k0 [unfolded k_def] by (intro float_to_int_in_range) simp_all
  define ds where "ds = format_integer (nat (k div 100))"
  define d1 where "d1 = char_of (nat (k div 10 mod 10) + 48)"
  define d2 where "d2 = char_of (nat (k mod 10) + 48)"
  define rest where "rest =
     integer_to_ascii_2_decimals M (float_to_int M (float32_mul TAS 360)) @ '',V,''
     @ integer_to_ascii_1_decimal M (float_to_int M (float32_mul voltage 10))
     @ (if airdata_available
        then '',H,'' @ integer_to_ascii_2_decimals M (float_to_int M (float32_mul humidity 100))
             @ '',T,'' @ integer_to_ascii_2_decimals M (float_to_int M (float32_mul temperature 100))
        else [])"
  have field: "integer_to_ascii_2_decimals M k = ds @ ''.'' @ [d1, d2]"
    using integer_to_ascii_2_decimals_nonneg [OF k0 k31, of M] by (simp add: ds_def d1_def d2_def)
  have sentence: "format_POV M TAS pabs pitot TEK_vario voltage airdata_available humidity temperature
             = ''$POV,E,''
               @ integer_to_ascii_2_decimals M (float_to_int M (float32_mul TEK_vario 100))
               @ '',P,'' @ integer_to_ascii_2_decimals M (float_to_int M pabs)
               @ '',R,'' @ ds @ ''.'' @ [d1, d2] @ '',S,'' @ rest"
    unfolding format_POV_sentence cast field rest_def by simp
  have ne: "ds \<noteq> []" by (simp add: ds_def format_integer_not_empty)
  have digits: "set (ds @ [d1, d2]) \<subseteq> set ''0123456789''"
    and val: "decimal_value (ds @ [d1, d2]) = nat k"
    unfolding ds_def d1_def d2_def by (rule two_decimals_digits [OF k0])+
  have lead: "hd ds = CHR ''0'' \<longrightarrow> ds = ''0''"
    using format_integer_leading_zero [of "nat (k div 100)"] by (simp add: ds_def)
  have neg: "pitot < 0 \<longrightarrow> ds @ ''.'' @ [d1, d2] = ''0.00''"
    by (simp add: ds_def d1_def d2_def k_def truncate_towards_zero_def format_integer.simps
          char_of_def bit_0)
  from sentence ne digits lead val kv neg show ?thesis by metis
qed

text \<open>
  C10, amended, at a pitot pressure of -3 Pa, where the sentence is
  \<open>$POV,E,1.50,P,950.00,R,0.00,S,108.00,V,12.3\<close>, and the sentence at 12345.6 Pa with air
  data, whose field after \<open>,R,\<close> is \<open>123.45\<close>.
\<close>

theorem format_POV_pitot_field_witness:
  "(- 3 :: real) < 2 ^ 31
   \<and> (\<exists>ds d1 d2 rest.
           format_POV saturating_machine 30 95000 (- 3) 1.5 12.3 False 0 0
             = ''$POV,E,''
               @ integer_to_ascii_2_decimals saturating_machine
                   (float_to_int saturating_machine (float32_mul 1.5 100))
               @ '',P,'' @ integer_to_ascii_2_decimals saturating_machine
                   (float_to_int saturating_machine 95000)
               @ '',R,'' @ ds @ ''.'' @ [d1, d2] @ '',S,'' @ rest
         \<and> ds \<noteq> [] \<and> set (ds @ [d1, d2]) \<subseteq> set ''0123456789''
         \<and> (hd ds = CHR ''0'' \<longrightarrow> ds = ''0'')
         \<and> decimal_value (ds @ [d1, d2]) = (if (- 3 :: real) < 0 then 0 else nat \<lfloor>- 3 :: real\<rfloor>)
         \<and> ((- 3 :: real) < 0 \<longrightarrow> ds @ ''.'' @ [d1, d2] = ''0.00''))
   \<and> format_POV saturating_machine 30 95000 (- 3) 1.5 12.3 False 0 0
       = ''$POV,E,1.50,P,950.00,R,0.00,S,108.00,V,12.3''
   \<and> format_POV saturating_machine 30 95000 12345.6 (- 1.5) 12.3 True 0.5 21
       = ''$POV,E,-1.50,P,950.00,R,123.45,S,108.00,V,12.3,H,0.50,T,21.00''
   \<and> decimal_value ''12345'' = nat \<lfloor>12345.6 :: real\<rfloor>"
proof -
  have h: "(- 3 :: real) < 2 ^ 31" by simp
  have e: "format_POV saturating_machine 30 95000 (- 3) 1.5 12.3 False 0 0
       = ''$POV,E,1.50,P,950.00,R,0.00,S,108.00,V,12.3''"
    unfolding format_POV_sentence by (simp add: evaluation_defs)
  have e': "format_POV saturating_machine 30 95000 12345.6 (- 1.5) 12.3 True 0.5 21
       = ''$POV,E,-1.50,P,950.00,R,123.45,S,108.00,V,12.3,H,0.50,T,21.00''"
    unfolding format_POV_sentence by (simp add: evaluation_defs)
  have d: "decimal_value ''12345'' = nat \<lfloor>12345.6 :: real\<rfloor>"
    by (simp add: decimal_value_def digit_value_def)
  note c = format_POV_pitot_field [OF h, where M = saturating_machine and TAS = 30
      and pabs = 95000 and TEK_vario = "1.5" and voltage = "12.3" and airdata_available = False
      and humidity = 0 and temperature = 0]
  show ?thesis
    by (rule conjI [OF h conjI [OF c conjI [OF e conjI [OF e' d]]]])
qed

section \<open>Properties of the AHRS\<close>

text \<open>
  The norm of the attitude quaternion after \<^verbatim>\<open>update_attitude\<close> is decided by
  \<^verbatim>\<open>quaternion::rotate\<close> and \<^verbatim>\<open>quaternion::normalize\<close> and by the rounding of \<^verbatim>\<open>float\<close>
  arithmetic. The two methods are parameters here and rounding is outside the embedding,
  so no statement about the norm (C1) is made.
\<close>

subsection \<open>What each step leaves unchanged\<close>

lemmas selector_if =
  if_distrib [of gyro_integrator] if_distrib [of compass_calibration]
  if_distrib [of circling_state] if_distrib [of nav_correction]
  if_distrib [of heading_difference_AHRS_DGNSS] if_distrib [of automatic_magnetic_calibration]
  if_distrib [of body2nav] if_distrib [of euler]
  if_distrib [of antenna_DOWN_correction] if_distrib [of antenna_RIGHT_correction]

lemmas example_defs =
  example_AHRS_def example_tuning_def example_library_def identity_matrix_def

lemmas vector_defs =
  vector_add_def vector_sub_def vector_scale_def scalar_product_def matrix_times_vector_def
  reverse_map_def

lemma update_circling_state_frame [simp]:
  "gyro_integrator (snd (update_circling_state T L s)) = gyro_integrator s"
  "compass_calibration (snd (update_circling_state T L s)) = compass_calibration s"
  "body2nav (snd (update_circling_state T L s)) = body2nav s"
  "euler (snd (update_circling_state T L s)) = euler s"
  "antenna_DOWN_correction (snd (update_circling_state T L s)) = antenna_DOWN_correction s"
  "antenna_RIGHT_correction (snd (update_circling_state T L s)) = antenna_RIGHT_correction s"
  "automatic_magnetic_calibration (snd (update_circling_state T L s)) = automatic_magnetic_calibration s"
  by (simp_all add: update_circling_state_def Let_def)

lemma update_attitude_frame [simp]:
  "gyro_integrator (update_attitude L acc gyro mag s) = gyro_integrator s"
  "compass_calibration (update_attitude L acc gyro mag s) = compass_calibration s"
  "circling_state (update_attitude L acc gyro mag s) = circling_state s"
  "nav_correction (update_attitude L acc gyro mag s) = nav_correction s"
  "heading_difference_AHRS_DGNSS (update_attitude L acc gyro mag s) = heading_difference_AHRS_DGNSS s"
  "automatic_magnetic_calibration (update_attitude L acc gyro mag s) = automatic_magnetic_calibration s"
  by (simp_all add: update_attitude_def Let_def)

lemma feed_magnetic_induction_observer_frame [simp]:
  "gyro_integrator (feed_magnetic_induction_observer T L m s) = gyro_integrator s"
  "compass_calibration (feed_magnetic_induction_observer T L m s) = compass_calibration s"
  "circling_state (feed_magnetic_induction_observer T L m s) = circling_state s"
  "nav_correction (feed_magnetic_induction_observer T L m s) = nav_correction s"
  "heading_difference_AHRS_DGNSS (feed_magnetic_induction_observer T L m s) = heading_difference_AHRS_DGNSS s"
  "automatic_magnetic_calibration (feed_magnetic_induction_observer T L m s) = automatic_magnetic_calibration s"
  by (simp_all add: feed_magnetic_induction_observer_def Let_def)

lemma handle_magnetic_calibration_frame [simp]:
  "gyro_integrator (handle_magnetic_calibration T L c s) = gyro_integrator s"
  "circling_state (handle_magnetic_calibration T L c s) = circling_state s"
  "nav_correction (handle_magnetic_calibration T L c s) = nav_correction s"
  "heading_difference_AHRS_DGNSS (handle_magnetic_calibration T L c s) = heading_difference_AHRS_DGNSS s"
  by (simp_all add: handle_magnetic_calibration_def Let_def case_prod_beta selector_if
        if_distrib [of fst] if_distrib [of snd] split del: if_split cong del: if_weak_cong)

lemma handle_magnetic_calibration_compass_calibration:
  "compass_calibration (handle_magnetic_calibration T L c s) =
     fst (snd (set_calibration_if_changed L (compass_calibration s) (mag_calibration_data_collector s)
                 (MAG_SCALE T) (averager_get_output L (turn_rate_averager s) > 0)))"
  by (simp add: handle_magnetic_calibration_def Let_def case_prod_beta selector_if
        if_distrib [of fst] if_distrib [of snd] split del: if_split cong del: if_weak_cong)

subsection \<open>The circling state of a tick\<close>

lemma update_diff_GNSS_circling_state:
  "circling_state (update_diff_GNSS T L gyro acc mag ga gh s)
     = circling_state (snd (update_circling_state T L s))"
  by (simp add: update_diff_GNSS_def Let_def selector_if split del: if_split cong del: if_weak_cong)

lemma update_compass_circling_state:
  "circling_state (update_compass T L gyro acc mag ga s)
     = circling_state (snd (update_circling_state T L s))"
  by (cases "circling_state (snd (update_circling_state T L s))")
     (simp_all add: update_compass_def Let_def selector_if split del: if_split cong del: if_weak_cong)

lemma update_ACC_only_circling_state:
  "circling_state (update_ACC_only T L gyro acc mag ga s)
     = circling_state (snd (update_circling_state T L s))"
  by (simp add: update_ACC_only_def Let_def)

subsection \<open>The gyro integrator\<close>

lemma update_diff_GNSS_gyro_integrator:
  "gyro_integrator (update_diff_GNSS T L gyro acc mag ga gh s) =
     (if circling_state (update_diff_GNSS T L gyro acc mag ga gh s) = STRAIGHT_FLIGHT
      then vector_add (gyro_integrator s)
             (proportional_correction T (body2nav s)
                (nav_correction (update_diff_GNSS T L gyro acc mag ga gh s)))
      else gyro_integrator s)"
  by (cases "circling_state (snd (update_circling_state T L s))")
     (simp_all add: update_diff_GNSS_def Let_def proportional_correction_def selector_if
        split del: if_split cong del: if_weak_cong)

lemma update_compass_gyro_integrator:
  "gyro_integrator (update_compass T L gyro acc mag ga s) =
     (if circling_state (update_compass T L gyro acc mag ga s) = CIRCLING
      then gyro_integrator s
      else vector_add (gyro_integrator s)
             (proportional_correction T (body2nav s)
                (nav_correction (update_compass T L gyro acc mag ga s))))"
  by (cases "circling_state (snd (update_circling_state T L s))")
     (simp_all add: update_compass_def Let_def proportional_correction_def selector_if
        split del: if_split cong del: if_weak_cong)

lemma update_ACC_only_gyro_integrator:
  "gyro_integrator (update_ACC_only T L gyro acc mag ga s) =
     vector_add (gyro_integrator s)
       (proportional_correction T (body2nav s)
          (nav_correction (update_ACC_only T L gyro acc mag ga s)))"
  by (simp add: update_ACC_only_def Let_def proportional_correction_def)

lemma update_compass_nav_correction_CIRCLING:
  assumes "circling_state (snd (update_circling_state T L s)) = CIRCLING"
    and "\<not> isCalibrationDone L (compass_calibration s)" and "\<not> CROSS_GAIN_ONLY T"
  shows "nav_correction (update_compass T L gyro acc mag ga s) =
     float3vector
       (- EAST (matrix_times_vector (body2nav s) acc) + EAST ga)
       (NORTH (matrix_times_vector (body2nav s) acc) - NORTH ga)
       ((NORTH (matrix_times_vector (body2nav s) acc) * EAST ga
           - EAST (matrix_times_vector (body2nav s) acc) * NORTH ga) * CROSS_GAIN T
        + (NORTH (matrix_times_vector (body2nav s) mag)
             * EAST (expected_nav_induction (snd (update_circling_state T L s)))
           - EAST (matrix_times_vector (body2nav s) mag)
             * NORTH (expected_nav_induction (snd (update_circling_state T L s)))) * M_H_GAIN T)"
  using assms
  by (simp add: update_compass_def Let_def selector_if split del: if_split cong del: if_weak_cong)

subsection \<open>The compass calibration\<close>

lemma update_diff_GNSS_compass_calibration:
  "compass_calibration (update_diff_GNSS T L gyro acc mag ga gh s) \<noteq> compass_calibration s \<Longrightarrow>
     automatic_magnetic_calibration s \<and> circling_state s = CIRCLING
     \<and> circling_state (update_diff_GNSS T L gyro acc mag ga gh s) = TRANSITION"
  unfolding update_diff_GNSS_circling_state
  by (cases "automatic_magnetic_calibration s \<and> circling_state s = CIRCLING
             \<and> circling_state (snd (update_circling_state T L s)) = TRANSITION")
     (simp_all add: update_diff_GNSS_def Let_def selector_if split del: if_split cong del: if_weak_cong)

lemma update_compass_compass_calibration:
  "compass_calibration (update_compass T L gyro acc mag ga s) \<noteq> compass_calibration s \<Longrightarrow>
     automatic_magnetic_calibration s \<and> circling_state s = CIRCLING
     \<and> circling_state (update_compass T L gyro acc mag ga s) = TRANSITION"
  unfolding update_compass_circling_state
  by (cases "circling_state (snd (update_circling_state T L s))";
      cases "automatic_magnetic_calibration s"; cases "circling_state s = CIRCLING")
     (simp_all add: update_compass_def Let_def selector_if split del: if_split cong del: if_weak_cong)

lemma update_ACC_only_compass_calibration:
  "compass_calibration (update_ACC_only T L gyro acc mag ga s) = compass_calibration s"
  by (simp add: update_ACC_only_def Let_def)

lemma update_compass_at_edge:
  assumes "automatic_magnetic_calibration s" and "circling_state s = CIRCLING"
    and "circling_state (snd (update_circling_state T L s)) = TRANSITION"
  shows "\<exists>s'. compass_calibration s' = compass_calibration s
           \<and> update_compass T L gyro acc mag ga s = handle_magnetic_calibration T L (CHR ''m'') s'"
  using assms
  apply (simp add: update_compass_def Let_def selector_if split del: if_split cong del: if_weak_cong)
  apply (rule exI, rule conjI)
   prefer 2
   apply (rule refl)
  apply simp
  done

subsection \<open>The heading difference\<close>

lemma update_diff_GNSS_heading_difference:
  "heading_difference_AHRS_DGNSS (update_diff_GNSS T L gyro acc mag ga gh s) =
     (let d = heading_difference_raw L gh s;
          d = (if d > M_PI_F T then d - 2 * M_PI_F T else d)
      in if d < - M_PI_F T then d + 2 * M_PI_F T else d)"
  by (simp add: update_diff_GNSS_def Let_def heading_difference_raw_def selector_if
        split del: if_split cong del: if_weak_cong)

subsection \<open>Evaluating the instance\<close>

lemma example_circling_state_held:
  "circling_state (snd (update_circling_state example_tuning example_library
      (example_AHRS 1000 CIRCLING 0.3))) = CIRCLING"
  by (simp add: update_circling_state_def example_defs Let_def)

lemma example_circling_state_left:
  "circling_state (snd (update_circling_state example_tuning example_library
      (example_AHRS 1000 CIRCLING 0))) = TRANSITION"
  by (simp add: update_circling_state_def example_defs Let_def)

lemma example_handle_magnetic_calibration:
  "compass_calibration (handle_magnetic_calibration T example_library c s) = compass_calibration s + 1"
  by (simp add: handle_magnetic_calibration_compass_calibration example_library_def)

subsection \<open>The circling state machine\<close>

text \<open>
  C2: with the circling state enabled, the hysteresis band not empty
  (\<open>LOW_TURN_RATE \<le> HIGH_TURN_RATE\<close>) and a positive \<open>CIRCLE_LIMIT\<close>, for every counter
  in [0, CIRCLE\_LIMIT] and every filtered turn rate, \<^verbatim>\<open>update_circling_state\<close> increments
  the counter exactly when it is below the limit and the magnitude of the turn rate is
  strictly above \<open>HIGH_TURN_RATE\<close>, decrements it exactly when it is positive and the
  magnitude is strictly below \<open>LOW_TURN_RATE\<close>, and leaves it alone otherwise; the
  counter stays in [0, CIRCLE\_LIMIT]; the state is STRAIGHT\_FLIGHT for the counter 0,
  CIRCLING for the counter CIRCLE\_LIMIT and TRANSITION otherwise, and it is the value
  returned.
\<close>

theorem update_circling_state_step:
  assumes "\<not> DISABLE_CIRCLING_STATE T"
    and "LOW_TURN_RATE T \<le> HIGH_TURN_RATE T"
    and "0 < CIRCLE_LIMIT T"
    and "0 \<le> circling_counter s" and "circling_counter s \<le> CIRCLE_LIMIT T"
  shows "(circling_counter (snd (update_circling_state T L s)) = circling_counter s + 1
            \<longleftrightarrow> circling_counter s < CIRCLE_LIMIT T
                \<and> \<bar>averager_get_output L (turn_rate_averager s)\<bar> > HIGH_TURN_RATE T)
       \<and> (circling_counter (snd (update_circling_state T L s)) = circling_counter s - 1
            \<longleftrightarrow> circling_counter s > 0
                \<and> \<bar>averager_get_output L (turn_rate_averager s)\<bar> < LOW_TURN_RATE T)
       \<and> circling_counter (snd (update_circling_state T L s))
            \<in> {circling_counter s - 1, circling_counter s, circling_counter s + 1}
       \<and> 0 \<le> circling_counter (snd (update_circling_state T L s))
       \<and> circling_counter (snd (update_circling_state T L s)) \<le> CIRCLE_LIMIT T
       \<and> circling_state (snd (update_circling_state T L s))
           = (if circling_counter (snd (update_circling_state T L s)) = 0 then STRAIGHT_FLIGHT
              else if circling_counter (snd (update_circling_state T L s)) = CIRCLE_LIMIT T
              then CIRCLING else TRANSITION)
       \<and> fst (update_circling_state T L s) = circling_state (snd (update_circling_state T L s))"
  using assms by (auto simp: update_circling_state_def Let_def)

text \<open>C2 at the counter 5 and a turn rate of 0.3 rad/s.\<close>

theorem update_circling_state_step_witness:
  "\<not> DISABLE_CIRCLING_STATE example_tuning
   \<and> LOW_TURN_RATE example_tuning \<le> HIGH_TURN_RATE example_tuning
   \<and> 0 < CIRCLE_LIMIT example_tuning
   \<and> 0 \<le> circling_counter (example_AHRS 5 TRANSITION 0.3)
   \<and> circling_counter (example_AHRS 5 TRANSITION 0.3) \<le> CIRCLE_LIMIT example_tuning
   \<and> circling_counter (snd (update_circling_state example_tuning example_library
        (example_AHRS 5 TRANSITION 0.3))) = 6
   \<and> circling_state (snd (update_circling_state example_tuning example_library
        (example_AHRS 5 TRANSITION 0.3))) = TRANSITION"
proof -
  have h: "\<not> DISABLE_CIRCLING_STATE example_tuning"
      "LOW_TURN_RATE example_tuning \<le> HIGH_TURN_RATE example_tuning"
      "0 < CIRCLE_LIMIT example_tuning"
      "0 \<le> circling_counter (example_AHRS 5 TRANSITION 0.3)"
      "circling_counter (example_AHRS 5 TRANSITION 0.3) \<le> CIRCLE_LIMIT example_tuning"
    by (simp_all add: example_defs)
  show ?thesis
    using h update_circling_state_step [OF h, of example_library]
    by (simp add: example_defs)
qed

subsection \<open>When the gyro integrator advances\<close>

text \<open>
  C3, as stated: in the magnetometer mode the gyro integrator is advanced on every tick,
  whatever the circling state. This fails on a tick of \<^verbatim>\<open>update_compass\<close> in the state
  CIRCLING: the proportional correction of the tick is (0.03, 0, 0), and the integrator
  keeps its value.
\<close>

theorem update_compass_integrator_counterexample:
  "gyro_integrator (update_compass example_tuning example_library (float3vector 0 0 0)
       (float3vector 0 0 (-10)) (float3vector 1 0 0) (float3vector 0 1 0)
       (example_AHRS 1000 CIRCLING 0.3))
     = gyro_integrator (example_AHRS 1000 CIRCLING 0.3)
   \<and> proportional_correction example_tuning (body2nav (example_AHRS 1000 CIRCLING 0.3))
       (nav_correction (update_compass example_tuning example_library (float3vector 0 0 0)
          (float3vector 0 0 (-10)) (float3vector 1 0 0) (float3vector 0 1 0)
          (example_AHRS 1000 CIRCLING 0.3)))
     = float3vector 0.03 0 0
   \<and> gyro_integrator (update_compass example_tuning example_library (float3vector 0 0 0)
       (float3vector 0 0 (-10)) (float3vector 1 0 0) (float3vector 0 1 0)
       (example_AHRS 1000 CIRCLING 0.3))
     \<noteq> vector_add (gyro_integrator (example_AHRS 1000 CIRCLING 0.3))
         (proportional_correction example_tuning (body2nav (example_AHRS 1000 CIRCLING 0.3))
           (nav_correction (update_compass example_tuning example_library (float3vector 0 0 0)
              (float3vector 0 0 (-10)) (float3vector 1 0 0) (float3vector 0 1 0)
              (example_AHRS 1000 CIRCLING 0.3))))"
proof -
  have nav: "nav_correction (update_compass example_tuning example_library (float3vector 0 0 0)
       (float3vector 0 0 (-10)) (float3vector 1 0 0) (float3vector 0 1 0)
       (example_AHRS 1000 CIRCLING 0.3)) = float3vector 1 0 0"
    by (subst update_compass_nav_correction_CIRCLING [OF example_circling_state_held])
       (simp_all add: update_circling_state_def example_defs vector_defs Let_def)
  show ?thesis
    unfolding update_compass_gyro_integrator update_compass_circling_state
      example_circling_state_held nav
    by (simp add: proportional_correction_def example_defs vector_defs)
qed

text \<open>
  C3, amended: in the DGNSS mode the gyro integrator advances by the proportional
  correction on the ticks whose circling state is STRAIGHT\_FLIGHT and keeps its value on
  the others; in the magnetometer mode it advances on the ticks whose circling state is
  STRAIGHT\_FLIGHT or TRANSITION and keeps its value on the ticks whose circling state is
  CIRCLING; in the acceleration-only mode it advances on every tick. The circling state
  of a tick is the state after the tick's call of \<^verbatim>\<open>update_circling_state\<close>.
\<close>

theorem gyro_integrator_advance_rule:
  "gyro_integrator (update_diff_GNSS T L gyro acc mag GNSS_acceleration GNSS_heading s) =
     (if circling_state (update_diff_GNSS T L gyro acc mag GNSS_acceleration GNSS_heading s)
           = STRAIGHT_FLIGHT
      then vector_add (gyro_integrator s)
             (proportional_correction T (body2nav s)
                (nav_correction (update_diff_GNSS T L gyro acc mag GNSS_acceleration GNSS_heading s)))
      else gyro_integrator s)
   \<and> gyro_integrator (update_compass T L gyro acc mag GNSS_acceleration s) =
     (if circling_state (update_compass T L gyro acc mag GNSS_acceleration s) = CIRCLING
      then gyro_integrator s
      else vector_add (gyro_integrator s)
             (proportional_correction T (body2nav s)
                (nav_correction (update_compass T L gyro acc mag GNSS_acceleration s))))
   \<and> gyro_integrator (update_ACC_only T L gyro acc mag GNSS_acceleration s) =
     vector_add (gyro_integrator s)
       (proportional_correction T (body2nav s)
          (nav_correction (update_ACC_only T L gyro acc mag GNSS_acceleration s)))"
  using update_diff_GNSS_gyro_integrator [of T L gyro acc mag GNSS_acceleration GNSS_heading s]
    update_compass_gyro_integrator [of T L gyro acc mag GNSS_acceleration s]
    update_ACC_only_gyro_integrator [of T L gyro acc mag GNSS_acceleration s]
  by (intro conjI)

subsection \<open>When the compass calibration changes\<close>

text \<open>
  C4: if a tick of \<^verbatim>\<open>update_diff_GNSS\<close> or of \<^verbatim>\<open>update_compass\<close> changes the stored compass
  calibration, then automatic magnetic calibration is enabled, the circling state before
  the tick was CIRCLING and the circling state after it is TRANSITION; a tick of
  \<^verbatim>\<open>update_ACC_only\<close> never changes the calibration.
\<close>

theorem calibration_changes_only_at_edge:
  "(compass_calibration (update_diff_GNSS T L gyro acc mag GNSS_acceleration GNSS_heading s)
        \<noteq> compass_calibration s
      \<longrightarrow> automatic_magnetic_calibration s \<and> circling_state s = CIRCLING
          \<and> circling_state (update_diff_GNSS T L gyro acc mag GNSS_acceleration GNSS_heading s)
              = TRANSITION)
   \<and> (compass_calibration (update_compass T L gyro acc mag GNSS_acceleration s)
        \<noteq> compass_calibration s
      \<longrightarrow> automatic_magnetic_calibration s \<and> circling_state s = CIRCLING
          \<and> circling_state (update_compass T L gyro acc mag GNSS_acceleration s) = TRANSITION)
   \<and> compass_calibration (update_ACC_only T L gyro acc mag GNSS_acceleration s)
       = compass_calibration s"
  using update_diff_GNSS_compass_calibration [of T L gyro acc mag GNSS_acceleration GNSS_heading s]
    update_compass_compass_calibration [of T L gyro acc mag GNSS_acceleration s]
    update_ACC_only_compass_calibration [of T L gyro acc mag GNSS_acceleration s]
  by blast

text \<open>C4 at a tick that leaves CIRCLING: the calibration of the instance changes.\<close>

theorem calibration_changes_only_at_edge_witness:
  "compass_calibration (update_compass example_tuning example_library (float3vector 0 0 0)
       (float3vector 0 0 (-10)) (float3vector 1 0 0) (float3vector 0 0 0)
       (example_AHRS 1000 CIRCLING 0))
     \<noteq> compass_calibration (example_AHRS 1000 CIRCLING 0)
   \<and> automatic_magnetic_calibration (example_AHRS 1000 CIRCLING 0)
   \<and> circling_state (example_AHRS 1000 CIRCLING 0) = CIRCLING
   \<and> circling_state (update_compass example_tuning example_library (float3vector 0 0 0)
       (float3vector 0 0 (-10)) (float3vector 1 0 0) (float3vector 0 0 0)
       (example_AHRS 1000 CIRCLING 0)) = TRANSITION"
proof -
  have auto_on: "automatic_magnetic_calibration (example_AHRS 1000 CIRCLING 0)"
    and was: "circling_state (example_AHRS 1000 CIRCLING 0) = CIRCLING"
    by (simp_all add: example_AHRS_def)
  from update_compass_at_edge [OF auto_on was example_circling_state_left]
  obtain s' where s': "compass_calibration s' = compass_calibration (example_AHRS 1000 CIRCLING 0)"
      "update_compass example_tuning example_library (float3vector 0 0 0)
         (float3vector 0 0 (-10)) (float3vector 1 0 0) (float3vector 0 0 0)
         (example_AHRS 1000 CIRCLING 0)
       = handle_magnetic_calibration example_tuning example_library (CHR ''m'') s'"
    by blast
  have changed: "compass_calibration (update_compass example_tuning example_library
       (float3vector 0 0 0) (float3vector 0 0 (-10)) (float3vector 1 0 0) (float3vector 0 0 0)
       (example_AHRS 1000 CIRCLING 0))
     \<noteq> compass_calibration (example_AHRS 1000 CIRCLING 0)"
    by (simp add: s' example_handle_magnetic_calibration)
  with calibration_changes_only_at_edge [of example_tuning example_library "float3vector 0 0 0"
      "float3vector 0 0 (-10)" "float3vector 1 0 0" "float3vector 0 0 0" 0
      "example_AHRS 1000 CIRCLING 0"]
  show ?thesis by blast
qed

subsection \<open>The range of the heading difference\<close>

text \<open>
  C5: for every input the stored heading difference lies in the interval from -pi
  (excluded) to pi (included). The code means to achieve this, its comment on the two
  statements that wrap being \<^verbatim>\<open>// map into { -PI PI}\<close>, and does not: each of the two
  statements is an \<^verbatim>\<open>if\<close> that runs once. For a GNSS heading of 6.2 rad, a yaw of -3.1 rad,
  a level roll and an antenna correction of -0.2 the raw difference is 9.5, one
  subtraction of 2 pi follows, and the value stored, about 3.2168, exceeds \<open>M_PI_F\<close>.
\<close>

theorem heading_difference_counterexample:
  "M_PI_F example_tuning <
     heading_difference_AHRS_DGNSS (update_diff_GNSS example_tuning example_library
       (float3vector 0 0 0) (float3vector 0 0 (-10)) (float3vector 1 0 0) (float3vector 0 0 0) 6.2
       ((example_AHRS 0 STRAIGHT_FLIGHT 0)
          \<lparr>euler := \<lparr>r = 0, n = 0, y = -3.1\<rparr>, antenna_RIGHT_correction := -0.2\<rparr>))"
  by (simp add: update_diff_GNSS_heading_difference heading_difference_raw_def example_defs Let_def)

text \<open>The lower end of the range is reached: a raw difference of \<open>- M_PI_F\<close> is stored as it is.\<close>

lemma heading_difference_lower_end:
  "heading_difference_AHRS_DGNSS (update_diff_GNSS example_tuning example_library
       (float3vector 0 0 0) (float3vector 0 0 (-10)) (float3vector 1 0 0) (float3vector 0 0 0)
       (- M_PI_F example_tuning) (example_AHRS 0 STRAIGHT_FLIGHT 0))
     = - M_PI_F example_tuning"
  by (simp add: update_diff_GNSS_heading_difference heading_difference_raw_def example_defs Let_def)

text \<open>
  What the two statements do achieve: when the raw difference (the GNSS heading corrected
  for the antenna alignment, minus the estimated yaw) lies in [-3 pi, 3 pi], the stored
  heading difference lies in the closed interval [-pi, pi]; and a raw difference of
  pi + eps with eps > 0 is stored as -pi + eps. Here pi is the constant \<open>M_PI_F\<close> of the
  code.
\<close>

lemma heading_difference_wrapped:
  assumes "- 3 * M_PI_F T \<le> heading_difference_raw L GNSS_heading s"
    and "heading_difference_raw L GNSS_heading s \<le> 3 * M_PI_F T"
  shows "- M_PI_F T
           \<le> heading_difference_AHRS_DGNSS
               (update_diff_GNSS T L gyro acc mag GNSS_acceleration GNSS_heading s)
       \<and> heading_difference_AHRS_DGNSS
             (update_diff_GNSS T L gyro acc mag GNSS_acceleration GNSS_heading s)
           \<le> M_PI_F T
       \<and> (0 < eps \<and> heading_difference_raw L GNSS_heading s = M_PI_F T + eps
            \<longrightarrow> heading_difference_AHRS_DGNSS
                  (update_diff_GNSS T L gyro acc mag GNSS_acceleration GNSS_heading s)
                = - M_PI_F T + eps)"
  using assms by (auto simp: update_diff_GNSS_heading_difference Let_def)

text \<open>The single wrap at a GNSS heading of 6.2 rad and a yaw of 0.\<close>

lemma heading_difference_wrapped_witness:
  "- 3 * M_PI_F example_tuning
      \<le> heading_difference_raw example_library 6.2 (example_AHRS 0 STRAIGHT_FLIGHT 0)
   \<and> heading_difference_raw example_library 6.2 (example_AHRS 0 STRAIGHT_FLIGHT 0)
      \<le> 3 * M_PI_F example_tuning
   \<and> (0::real) < 6.2 - 13176795 / 4194304
   \<and> heading_difference_raw example_library 6.2 (example_AHRS 0 STRAIGHT_FLIGHT 0)
      = M_PI_F example_tuning + (6.2 - 13176795 / 4194304)
   \<and> heading_difference_AHRS_DGNSS (update_diff_GNSS example_tuning example_library
        (float3vector 0 0 0) (float3vector 0 0 (-10)) (float3vector 1 0 0) (float3vector 0 0 0)
        6.2 (example_AHRS 0 STRAIGHT_FLIGHT 0))
      = - M_PI_F example_tuning + (6.2 - 13176795 / 4194304)"
proof -
  have h: "- 3 * M_PI_F example_tuning
        \<le> heading_difference_raw example_library 6.2 (example_AHRS 0 STRAIGHT_FLIGHT 0)"
      "heading_difference_raw example_library 6.2 (example_AHRS 0 STRAIGHT_FLIGHT 0)
        \<le> 3 * M_PI_F example_tuning"
    by (simp_all add: heading_difference_raw_def example_defs)
  have e: "(0::real) < 6.2 - 13176795 / 4194304"
      "heading_difference_raw example_library 6.2 (example_AHRS 0 STRAIGHT_FLIGHT 0)
        = M_PI_F example_tuning + (6.2 - 13176795 / 4194304)"
    by (simp_all add: heading_difference_raw_def example_defs)
  from heading_difference_wrapped [OF h, where eps = "6.2 - 13176795 / 4194304"
      and gyro = "float3vector 0 0 0" and acc = "float3vector 0 0 (-10)"
      and mag = "float3vector 1 0 0" and GNSS_acceleration = "float3vector 0 0 0"] h e
  show ?thesis by blast
qed

section \<open>Properties of the flight observer\<close>

lemma update_every_10ms_no_fix:
  "vario_uncompensated_pressure (update_every_10ms F gv ga aa hv na pa TAS IAS cs wa False s)
     = fst (KalmanVario_update F (KalmanVario_pressure s) pa (DOWN aa))"
  "speed_compensation_IAS (update_every_10ms F gv ga aa hv na pa TAS IAS cs wa False s)
     = fst (differentiator_respond F (kinetic_energy_differentiator s)
              (IAS * IAS * ONE_DIV_BY_GRAVITY_TIMES_2))"
  "vario_uncompensated_GNSS (update_every_10ms F gv ga aa hv na pa TAS IAS cs wa False s)
     = fst (KalmanVario_update F (KalmanVario_pressure s) pa (DOWN aa))"
  "speed_compensation_GNSS (update_every_10ms F gv ga aa hv na pa TAS IAS cs wa False s)
     = fst (differentiator_respond F (kinetic_energy_differentiator s)
              (IAS * IAS * ONE_DIV_BY_GRAVITY_TIMES_2))"
  "KalmanVario_GNSS (update_every_10ms F gv ga aa hv na pa TAS IAS cs wa False s)
     = KalmanVario_GNSS s"
  "Kalman_v_a_observer_N (update_every_10ms F gv ga aa hv na pa TAS IAS cs wa False s)
     = Kalman_v_a_observer_N s"
  "Kalman_v_a_observer_E (update_every_10ms F gv ga aa hv na pa TAS IAS cs wa False s)
     = Kalman_v_a_observer_E s"
  "windspeed_decimator_100Hz_10Hz (update_every_10ms F gv ga aa hv na pa TAS IAS cs wa False s)
     = windspeed_decimator_100Hz_10Hz s"
  by (simp_all add: update_every_10ms_def Let_def case_prod_beta)

lemma update_every_10ms_fix:
  "specific_energy (update_every_10ms F gv ga aa hv na pa TAS IAS cs wa True s)
     = (SQR (NORTH gv - NORTH wa) + SQR (EAST gv - EAST wa)
        + SQR (DOWN gv) * vertical_energy_tuning_factor s) * ONE_DIV_BY_GRAVITY_TIMES_2"
  "Kalman_v_a_observer_N (update_every_10ms F gv ga aa hv na pa TAS IAS cs wa True s)
     = Kalman_V_A_Aoff_update F (Kalman_v_a_observer_N s) (NORTH gv - NORTH wa) (NORTH aa)"
  "Kalman_v_a_observer_E (update_every_10ms F gv ga aa hv na pa TAS IAS cs wa True s)
     = Kalman_V_A_Aoff_update F (Kalman_v_a_observer_E s) (EAST gv - EAST wa) (EAST aa)"
  "vertical_energy_tuning_factor (update_every_10ms F gv ga aa hv na pa TAS IAS cs wa True s)
     = vertical_energy_tuning_factor s"
  by (simp_all add: update_every_10ms_def Let_def case_prod_beta)

text \<open>
  C6: after a call of \<^verbatim>\<open>update_every_10ms\<close> without a GNSS fix,
  \<open>vario_uncompensated_GNSS\<close> equals \<open>vario_uncompensated_pressure\<close>, which is the value
  the pressure Kalman filter has just returned, \<open>speed_compensation_GNSS\<close> equals
  \<open>speed_compensation_IAS\<close>, which is the value the kinetic energy differentiator has
  just returned, and the GNSS Kalman filter, the two horizontal Kalman filters and the
  wind decimator are the objects they were before the call.
\<close>

theorem no_fix_mirrors_pressure:
  "vario_uncompensated_GNSS
       (update_every_10ms F gnss_velocity gnss_acceleration ahrs_acceleration heading_vector
          GNSS_negative_altitude pressure_altitude TAS IAS circle_state wind_average False s)
     = vario_uncompensated_pressure
         (update_every_10ms F gnss_velocity gnss_acceleration ahrs_acceleration heading_vector
            GNSS_negative_altitude pressure_altitude TAS IAS circle_state wind_average False s)
   \<and> vario_uncompensated_pressure
       (update_every_10ms F gnss_velocity gnss_acceleration ahrs_acceleration heading_vector
          GNSS_negative_altitude pressure_altitude TAS IAS circle_state wind_average False s)
     = fst (KalmanVario_update F (KalmanVario_pressure s) pressure_altitude (DOWN ahrs_acceleration))
   \<and> speed_compensation_GNSS
       (update_every_10ms F gnss_velocity gnss_acceleration ahrs_acceleration heading_vector
          GNSS_negative_altitude pressure_altitude TAS IAS circle_state wind_average False s)
     = speed_compensation_IAS
         (update_every_10ms F gnss_velocity gnss_acceleration ahrs_acceleration heading_vector
            GNSS_negative_altitude pressure_altitude TAS IAS circle_state wind_average False s)
   \<and> speed_compensation_IAS
       (update_every_10ms F gnss_velocity gnss_acceleration ahrs_acceleration heading_vector
          GNSS_negative_altitude pressure_altitude TAS IAS circle_state wind_average False s)
     = fst (differentiator_respond F (kinetic_energy_differentiator s)
              (IAS * IAS * ONE_DIV_BY_GRAVITY_TIMES_2))
   \<and> KalmanVario_GNSS
       (update_every_10ms F gnss_velocity gnss_acceleration ahrs_acceleration heading_vector
          GNSS_negative_altitude pressure_altitude TAS IAS circle_state wind_average False s)
     = KalmanVario_GNSS s
   \<and> Kalman_v_a_observer_N
       (update_every_10ms F gnss_velocity gnss_acceleration ahrs_acceleration heading_vector
          GNSS_negative_altitude pressure_altitude TAS IAS circle_state wind_average False s)
     = Kalman_v_a_observer_N s
   \<and> Kalman_v_a_observer_E
       (update_every_10ms F gnss_velocity gnss_acceleration ahrs_acceleration heading_vector
          GNSS_negative_altitude pressure_altitude TAS IAS circle_state wind_average False s)
     = Kalman_v_a_observer_E s
   \<and> windspeed_decimator_100Hz_10Hz
       (update_every_10ms F gnss_velocity gnss_acceleration ahrs_acceleration heading_vector
          GNSS_negative_altitude pressure_altitude TAS IAS circle_state wind_average False s)
     = windspeed_decimator_100Hz_10Hz s"
  by (simp only: update_every_10ms_no_fix simp_thms)

text \<open>
  C7, as stated: the specific energy is computed from the velocities of the horizontal
  Kalman filters. This fails for the instance, whose horizontal filter moves half way
  to its measurement: at a GNSS velocity of 10 m/s north and no wind the filter holds
  5 m/s, and the specific energy is not 25 / (2 g).
\<close>

theorem specific_energy_counterexample:
  "specific_energy
       (update_every_10ms example_filters (float3vector 10 0 0) (float3vector 0 0 0)
          (float3vector 0 0 0) (float3vector 1 0 0) (-500) 500 10 10 STRAIGHT_FLIGHT
          (float3vector 0 0 0) True example_flight_observer)
     \<noteq> (SQR (Kalman_V_A_Aoff_get_x example_filters
                (Kalman_v_a_observer_N
                   (update_every_10ms example_filters (float3vector 10 0 0) (float3vector 0 0 0)
                      (float3vector 0 0 0) (float3vector 1 0 0) (-500) 500 10 10 STRAIGHT_FLIGHT
                      (float3vector 0 0 0) True example_flight_observer)) VELOCITY)
          + SQR (Kalman_V_A_Aoff_get_x example_filters
                (Kalman_v_a_observer_E
                   (update_every_10ms example_filters (float3vector 10 0 0) (float3vector 0 0 0)
                      (float3vector 0 0 0) (float3vector 1 0 0) (-500) 500 10 10 STRAIGHT_FLIGHT
                      (float3vector 0 0 0) True example_flight_observer)) VELOCITY)
          + SQR (DOWN (float3vector 10 0 0))
            * vertical_energy_tuning_factor
                (update_every_10ms example_filters (float3vector 10 0 0) (float3vector 0 0 0)
                   (float3vector 0 0 0) (float3vector 1 0 0) (-500) 500 10 10 STRAIGHT_FLIGHT
                   (float3vector 0 0 0) True example_flight_observer))
         / (2 * 9.81)"
  by (simp add: update_every_10ms_fix example_filters_def example_flight_observer_def SQR_def
        ONE_DIV_BY_GRAVITY_TIMES_2_def)

text \<open>
  C7, amended: with a GNSS fix the specific energy after \<^verbatim>\<open>update_every_10ms\<close> is
  ((v.N - w.N)^2 + (v.E - w.E)^2 + v.DOWN^2 k) times 0.0509684, where v is the GNSS
  velocity passed to the call, w the average wind passed to the call and k the vertical
  energy tuning factor: the velocities are the inputs of the horizontal Kalman filters,
  not their states. The factor 0.0509684 differs from 1 / (2 * 9.81) by less than 1e-9.
\<close>

theorem specific_energy_formula:
  "specific_energy
       (update_every_10ms F gnss_velocity gnss_acceleration ahrs_acceleration heading_vector
          GNSS_negative_altitude pressure_altitude TAS IAS circle_state wind_average True s)
     = (SQR (NORTH gnss_velocity - NORTH wind_average)
        + SQR (EAST gnss_velocity - EAST wind_average)
        + SQR (DOWN gnss_velocity) * vertical_energy_tuning_factor s)
       * ONE_DIV_BY_GRAVITY_TIMES_2
   \<and> \<bar>ONE_DIV_BY_GRAVITY_TIMES_2 - 1 / (2 * 9.81)\<bar> < 1 / 10 ^ 9"
  by (simp add: update_every_10ms_fix ONE_DIV_BY_GRAVITY_TIMES_2_def)

end
